theory Spec2Isabelle
  imports Complex_Main "HOL-Library.AList"
begin

section \<open>Parameter store (parameter.py)\<close>

text \<open>
  Python floats are modelled as real numbers throughout: the development verifies the
  arithmetic the code writes down, not IEEE rounding. A Python dict is a map; the two dicts
  of \<open>ParameterManager\<close> are the two fields of the record.
\<close>

record parameter_definition =
  pd_default :: real
  pd_min :: real
  pd_max :: real

record ParameterManager =
  parameters :: "string \<rightharpoonup> real"
  parameter_definitions :: "string \<rightharpoonup> parameter_definition"

definition ParameterManager_init :: ParameterManager where
  "ParameterManager_init = \<lparr>parameters = Map.empty, parameter_definitions = Map.empty\<rparr>"

definition register_parameter ::
  "ParameterManager \<Rightarrow> string \<Rightarrow> real \<Rightarrow> real \<Rightarrow> real \<Rightarrow> ParameterManager" where
  "register_parameter pm param_id default_value min_value max_value =
     pm\<lparr>parameter_definitions := (parameter_definitions pm)(param_id \<mapsto>
            \<lparr>pd_default = default_value, pd_min = min_value, pd_max = max_value\<rparr>),
        parameters := (parameters pm)(param_id \<mapsto> default_value)\<rparr>"

text \<open>The expression \<open>max(definition["min"], min(definition["max"], value))\<close> of \<open>set_parameter\<close>.\<close>

definition clamp :: "real \<Rightarrow> real \<Rightarrow> real \<Rightarrow> real" where
  "clamp v lo hi = max lo (min hi v)"

definition set_parameter :: "ParameterManager \<Rightarrow> string \<Rightarrow> real \<Rightarrow> ParameterManager" where
  "set_parameter pm param_id v =
     (let pm1 = (if parameter_definitions pm param_id = None
                 then register_parameter pm param_id 0 (-100) 100 else pm);
          (lo, hi) = (case parameter_definitions pm1 param_id of
                        Some d \<Rightarrow> (pd_min d, pd_max d)
                      | None \<Rightarrow> (-100, 100));
          clamped_value = clamp v lo hi
      in pm1\<lparr>parameters := (parameters pm1)(param_id \<mapsto> clamped_value)\<rparr>)"

definition get_parameter :: "ParameterManager \<Rightarrow> string \<Rightarrow> real \<Rightarrow> real" where
  "get_parameter pm param_id dflt = (case parameters pm param_id of Some v \<Rightarrow> v | None \<Rightarrow> dflt)"

text \<open>\<open>update_parameters\<close> sets the entries of a dict in its insertion order.\<close>

fun update_parameters :: "ParameterManager \<Rightarrow> (string \<times> real) list \<Rightarrow> ParameterManager" where
  "update_parameters pm [] = pm"
| "update_parameters pm ((param_id, v) # rest) = update_parameters (set_parameter pm param_id v) rest"

definition bounds_of :: "ParameterManager \<Rightarrow> string \<Rightarrow> real \<times> real" where
  "bounds_of pm param_id = (case parameter_definitions pm param_id of
       Some d \<Rightarrow> (pd_min d, pd_max d) | None \<Rightarrow> (-100, 100))"

section \<open>Curve evaluator (bezier.py)\<close>

datatype py_error = IndexError | KeyError | TypeError | AttributeError | ZeroDivisionError

text \<open>Python's \<open>xs[i]\<close>: a negative index counts from the end, an index out of range raises.\<close>

definition py_index :: "'a list \<Rightarrow> int \<Rightarrow> py_error + 'a" where
  "py_index xs i =
     (if 0 \<le> i \<and> i < int (length xs) then Inr (xs ! nat i)
      else if i < 0 \<and> - int (length xs) \<le> i then Inr (xs ! nat (int (length xs) + i))
      else Inl IndexError)"

definition calculate_point :: "real \<Rightarrow> real \<Rightarrow> real \<Rightarrow> real \<Rightarrow> real \<Rightarrow> real" where
  "calculate_point p0 p1 p2 p3 t =
     (let mt = 1 - t; mt2 = mt * mt; mt3 = mt2 * mt; t2 = t * t; t3 = t2 * t
      in mt3 * p0 + 3 * mt2 * t * p1 + 3 * mt * t2 * p2 + t3 * p3)"

text \<open>\<open>self.precision\<close> is set to 200 by the constructor and assigned nowhere else.\<close>

definition precision :: nat where
  "precision = 200"

record BezierCalculator =
  curve_cache :: "string \<rightharpoonup> (real \<times> real) list"

definition BezierCalculator_init :: BezierCalculator where
  "BezierCalculator_init = \<lparr>curve_cache = Map.empty\<rparr>"

text \<open>The list \<open>cache_data\<close> built by the loop of \<open>create_curve_cache\<close> over \<open>range(precision + 1)\<close>.\<close>

definition cache_data :: "real \<Rightarrow> real \<Rightarrow> real \<Rightarrow> real \<Rightarrow> (real \<times> real) list" where
  "cache_data p0 p1 p2 p3 =
     map (\<lambda>i. (real i / real precision, calculate_point p0 p1 p2 p3 (real i / real precision)))
       [0 ..< precision + 1]"

definition create_curve_cache ::
  "BezierCalculator \<Rightarrow> string \<Rightarrow> real \<Rightarrow> real \<Rightarrow> real \<Rightarrow> real \<Rightarrow> BezierCalculator" where
  "create_curve_cache bc curve_id p0 p1 p2 p3 =
     bc\<lparr>curve_cache := (curve_cache bc)(curve_id \<mapsto> cache_data p0 p1 p2 p3)\<rparr>"

text \<open>
  The \<open>while left <= right\<close> loop of \<open>evaluate_cached\<close>. It leaves either by the
  \<open>return\<close> on an exact match (\<open>Inr (Inl v)\<close>) or by its guard, with the final
  \<open>left\<close> and \<open>right\<close> (\<open>Inr (Inr (left, right))\<close>).
\<close>

function binary_search ::
  "(real \<times> real) list \<Rightarrow> real \<Rightarrow> int \<Rightarrow> int \<Rightarrow> py_error + (real + int \<times> int)" where
  "binary_search c t left right =
     (if left \<le> right then
        (case py_index c ((left + right) div 2) of
           Inl e \<Rightarrow> Inl e
         | Inr (tm, vm) \<Rightarrow>
             if tm < t then binary_search c t ((left + right) div 2 + 1) right
             else if tm > t then binary_search c t left ((left + right) div 2 - 1)
             else Inr (Inl vm))
      else Inr (Inr (left, right)))"
  by pat_completeness auto
termination
  by (relation "measure (\<lambda>(c, t, left, right). nat (right - left + 1))") auto

declare binary_search.simps [simp del]

definition evaluate_cached :: "BezierCalculator \<Rightarrow> string \<Rightarrow> real \<Rightarrow> py_error + real" where
  "evaluate_cached bc curve_id t =
     (case curve_cache bc curve_id of
        None \<Rightarrow> Inr 0
      | Some c \<Rightarrow>
         (case py_index c 0 of Inl e \<Rightarrow> Inl e | Inr (t0, v0) \<Rightarrow>
            if t \<le> t0 then Inr v0 else
           (case py_index c (-1) of Inl e \<Rightarrow> Inl e | Inr (tn, vn) \<Rightarrow>
              if t \<ge> tn then Inr vn else
             (case binary_search c t 0 (int (length c) - 1) of
                Inl e \<Rightarrow> Inl e
              | Inr (Inl v) \<Rightarrow> Inr v
              | Inr (Inr (left, right)) \<Rightarrow>
                 (case py_index c right of Inl e \<Rightarrow> Inl e | Inr (t1, v1) \<Rightarrow>
                 (case py_index c left of Inl e \<Rightarrow> Inl e | Inr (t2, v2) \<Rightarrow>
                    (let fraction = (if t2 \<noteq> t1 then (t - t1) / (t2 - t1) else 0)
                     in Inr (v1 + fraction * (v2 - v1)))))))))"


section \<open>Documents\<close>

text \<open>
  A document as \<open>json.load\<close> returns it. A dict is an association list read with
  \<open>map_of\<close>. Numbers are reals.
\<close>

datatype json = JNull | JBool bool | JNum real | JStr string | JArr "json list"
  | JObj "(string \<times> json) list"

text \<open>\<open>x.get(key, default)\<close>: only a dict has the method.\<close>

definition dict_get :: "json \<Rightarrow> string \<Rightarrow> json \<Rightarrow> py_error + json" where
  "dict_get x key dflt =
     (case x of
        JObj kvs \<Rightarrow> Inr (case map_of kvs key of Some v \<Rightarrow> v | None \<Rightarrow> dflt)
      | _ \<Rightarrow> Inl AttributeError)"

definition is_dict :: "json \<Rightarrow> bool" where
  "is_dict x = (case x of JObj kvs \<Rightarrow> True | _ \<Rightarrow> False)"

definition bind_err :: "py_error + 'a \<Rightarrow> ('a \<Rightarrow> py_error + 'b) \<Rightarrow> py_error + 'b" where
  "bind_err r f = (case r of Inl e \<Rightarrow> Inl e | Inr x \<Rightarrow> f x)"

section \<open>Motion loader (motion_parser.py)\<close>

text \<open>
  \<open>Motion.from_dict\<close> stores the document's \<open>Curves\<close> value itself in the motion, and
  \<open>parse_motion_file\<close> then appends to \<open>motion.curves\<close> while it iterates over the
  document's \<open>Curves\<close>. Whether these are one list object decides what the loop does, so
  list objects live in a store, addressed by their index, and a motion holds
  a reference. Values that are never mutated stay plain \<open>json\<close>.
\<close>

type_synonym heap = "json list list"

datatype pyref = ListRef nat | Immut json

record Motion =
  m_id :: string
  m_duration :: json
  m_fps :: json
  m_loop :: json
  m_fade_in_time :: json
  m_fade_out_time :: json
  m_curves :: pyref

text \<open>
  The loaded document \<open>motion_data\<close>: its tree, and what its \<open>Curves\<close> entry is bound
  to (a list is allocated in the store by the load, \<open>None\<close> when the key is absent).
\<close>

type_synonym motion_data = "json \<times> pyref option"

definition json_load :: "heap \<Rightarrow> json \<Rightarrow> motion_data \<times> heap" where
  "json_load h doc =
     (case doc of
        JObj kvs \<Rightarrow>
          (case map_of kvs ''Curves'' of
             None \<Rightarrow> ((doc, None), h)
           | Some (JArr xs) \<Rightarrow> ((doc, Some (ListRef (length h))), h @ [xs])
           | Some v \<Rightarrow> ((doc, Some (Immut v)), h))
      | _ \<Rightarrow> ((doc, None), h))"

text \<open>\<open>data.get("Curves", [])\<close>: the default is a new empty list at every call.\<close>

definition get_curves :: "heap \<Rightarrow> motion_data \<Rightarrow> py_error + pyref \<times> heap" where
  "get_curves h md =
     (case fst md of
        JObj kvs \<Rightarrow>
          (case snd md of
             Some r \<Rightarrow> Inr (r, h)
           | None \<Rightarrow> Inr (ListRef (length h), h @ [[]]))
      | _ \<Rightarrow> Inl AttributeError)"

definition from_dict :: "heap \<Rightarrow> string \<Rightarrow> motion_data \<Rightarrow> py_error + Motion \<times> heap" where
  "from_dict h motion_id md =
     bind_err (dict_get (fst md) ''Meta'' (JObj [])) (\<lambda>meta.
     bind_err (dict_get meta ''Duration'' (JNum 0)) (\<lambda>duration.
     bind_err (dict_get meta ''Fps'' (JNum 30)) (\<lambda>fps.
     bind_err (dict_get meta ''Loop'' (JBool True)) (\<lambda>loop.
     bind_err (dict_get meta ''FadeInTime'' (JNum 1)) (\<lambda>fade_in.
     bind_err (dict_get meta ''FadeOutTime'' (JNum 1)) (\<lambda>fade_out.
     bind_err (get_curves h md) (\<lambda>(curves, h').
       Inr (\<lparr>m_id = motion_id, m_duration = duration, m_fps = fps, m_loop = loop,
             m_fade_in_time = fade_in, m_fade_out_time = fade_out, m_curves = curves\<rparr>, h'))))))))"

text \<open>The dict \<open>curve\<close> built in the body of the loop from \<open>curve_data\<close>.\<close>

definition make_curve :: "json \<Rightarrow> py_error + json" where
  "make_curve curve_data =
     bind_err (dict_get curve_data ''Target'' (JStr '''')) (\<lambda>target.
     bind_err (dict_get curve_data ''Id'' (JStr '''')) (\<lambda>cid.
     bind_err (dict_get curve_data ''Segments'' (JArr [])) (\<lambda>segments.
       Inr (JObj [(''Target'', target), (''Id'', cid), (''Segments'', segments)]))))"

text \<open>
  \<open>for curve_data in curves: ... motion.curves.append(curve)\<close> over the list object at
  \<open>src\<close>: the iterator holds an index \<open>i\<close> and stops when \<open>i\<close> reaches the current
  length of the list. \<open>dst\<close> is \<open>motion.curves\<close>. The result is the exception raised, if
  any, and the store; \<open>None\<close> is a loop that does not end.
\<close>

partial_function (option) curves_loop ::
  "heap \<Rightarrow> nat \<Rightarrow> nat \<Rightarrow> pyref \<Rightarrow> (py_error option \<times> heap) option" where
  "curves_loop h src i dst =
     (if i < length (h ! src) then
        (case make_curve (h ! src ! i) of
           Inl e \<Rightarrow> Some (Some e, h)
         | Inr curve \<Rightarrow>
            (case dst of
               ListRef a \<Rightarrow> curves_loop (h[a := h ! a @ [curve]]) src (i + 1) dst
             | Immut v \<Rightarrow> Some (Some AttributeError, h)))
      else Some (None, h))"

text \<open>
  The loop over a \<open>Curves\<close> value that is not a list: a string yields its characters and
  a dict its keys, and a string has no \<open>get\<close>; anything else is not iterable.
\<close>

definition iterate_value :: "json \<Rightarrow> py_error option" where
  "iterate_value v =
     (case v of
        JStr s \<Rightarrow> if s = [] then None else Some AttributeError
      | JObj kvs \<Rightarrow> if kvs = [] then None else Some AttributeError
      | _ \<Rightarrow> Some TypeError)"

definition parse_curves :: "heap \<Rightarrow> pyref \<Rightarrow> pyref \<Rightarrow> (py_error option \<times> heap) option" where
  "parse_curves h curves dst =
     (case curves of
        ListRef src \<Rightarrow> curves_loop h src 0 dst
      | Immut v \<Rightarrow> Some (iterate_value v, h))"

text \<open>The body of the \<open>try\<close> block after \<open>json.load\<close>.\<close>

definition parse_motion_data ::
  "heap \<Rightarrow> string \<Rightarrow> motion_data \<Rightarrow> ((py_error + Motion) \<times> heap) option" where
  "parse_motion_data h motion_id md =
     (case from_dict h motion_id md of
        Inl e \<Rightarrow> Some (Inl e, h)
      | Inr (motion, h1) \<Rightarrow>
         (case bind_err (dict_get (fst md) ''Meta'' (JObj [])) (\<lambda>meta.
               bind_err (dict_get meta ''Duration'' (JNum 0)) (\<lambda>duration.
               bind_err (dict_get meta ''Fps'' (JNum 30)) (\<lambda>fps.
               bind_err (dict_get meta ''Loop'' (JBool True)) (\<lambda>loop.
               bind_err (dict_get meta ''FadeInTime'' (JNum 1)) (\<lambda>fade_in.
               bind_err (dict_get meta ''FadeOutTime'' (JNum 1)) (\<lambda>fade_out.
                 Inr (motion\<lparr>m_duration := duration, m_fps := fps, m_loop := loop,
                        m_fade_in_time := fade_in, m_fade_out_time := fade_out\<rparr>))))))) of
            Inl e \<Rightarrow> Some (Inl e, h1)
          | Inr motion1 \<Rightarrow>
             (case get_curves h1 md of
                Inl e \<Rightarrow> Some (Inl e, h1)
              | Inr (curves, h2) \<Rightarrow>
                 (case parse_curves h2 curves (m_curves motion1) of
                    None \<Rightarrow> None
                  | Some (Some e, h3) \<Rightarrow> Some (Inl e, h3)
                  | Some (None, h3) \<Rightarrow> Some (Inr motion1, h3)))))"

record MotionParser =
  motion_cache :: "string \<rightharpoonup> Motion"
  segment_evaluator :: BezierCalculator

text \<open>
  \<open>parse_motion_file\<close>. The file system and the JSON reader are the parameter
  \<open>read_json\<close> (the document at a path, or the exception of \<open>open\<close> or \<open>json.load\<close>);
  \<open>stem\<close> stands for \<open>os.path.splitext(os.path.basename(path))[0]\<close>. The result is the
  returned motion (\<open>None\<close> for Python's \<open>None\<close>), the parser and the store; the outer
  \<open>None\<close> is a call that does not return.
\<close>

definition parse_motion_file ::
  "(string \<Rightarrow> py_error + json) \<Rightarrow> (string \<Rightarrow> string) \<Rightarrow> MotionParser \<Rightarrow> heap \<Rightarrow> string
     \<Rightarrow> (Motion option \<times> MotionParser \<times> heap) option" where
  "parse_motion_file read_json stem mp h motion_path =
     (case motion_cache mp motion_path of
        Some m \<Rightarrow> Some (Some m, mp, h)
      | None \<Rightarrow>
         (case read_json motion_path of
            Inl e \<Rightarrow> Some (None, mp, h)
          | Inr doc \<Rightarrow>
             (case json_load h doc of (md, h1) \<Rightarrow>
               (case parse_motion_data h1 (stem motion_path) md of
                  None \<Rightarrow> None
                | Some (Inl e, h2) \<Rightarrow> Some (None, mp, h2)
                | Some (Inr motion, h2) \<Rightarrow>
                    Some (Some motion, mp\<lparr>motion_cache := (motion_cache mp)(motion_path \<mapsto> motion)\<rparr>, h2)))))"

text \<open>
  The state in which the loop appends to the very list it reads, with a dict at the
  iterator's position and at every later one.
\<close>

definition loop_feeds_itself :: "heap \<Rightarrow> nat \<Rightarrow> nat \<Rightarrow> pyref \<Rightarrow> bool" where
  "loop_feeds_itself h src i dst \<longleftrightarrow>
     dst = ListRef src \<and> src < length h \<and> i < length (h ! src)
     \<and> (\<forall>j. i \<le> j \<and> j < length (h ! src) \<longrightarrow> is_dict (h ! src ! j))"

text \<open>
  A motion document of the expected shape: \<open>Meta\<close>, when present, is a dict, and
  \<open>Curves\<close>, when present, is a list of dicts.
\<close>

definition well_formed_motion_document :: "(string \<times> json) list \<Rightarrow> bool" where
  "well_formed_motion_document kvs \<longleftrightarrow>
     (case map_of kvs ''Meta'' of None \<Rightarrow> True | Some m \<Rightarrow> is_dict m)
   \<and> (case map_of kvs ''Curves'' of
         None \<Rightarrow> True
       | Some (JArr xs) \<Rightarrow> list_all is_dict xs
       | Some _ \<Rightarrow> False)"

definition MotionParser_init :: MotionParser where
  "MotionParser_init = \<lparr>motion_cache = Map.empty, segment_evaluator = BezierCalculator_init\<rparr>"

section \<open>Curve segments (bezier.py, SegmentEvaluator; motion_parser.py, evaluate_curve)\<close>

text \<open>
  \<open>evaluate_segment\<close> with a segment id, as \<open>evaluate_curve\<close> calls it (the id is never
  empty there). The result is Python's \<open>None\<close> or a value, or the exception, together
  with the calculator, whose cache the call may fill.
\<close>

definition evaluate_segment ::
  "BezierCalculator \<Rightarrow> real \<Rightarrow> real \<Rightarrow> real list \<Rightarrow> string
     \<Rightarrow> (py_error + real option) \<times> BezierCalculator" where
  "evaluate_segment bc segment_type time segment_data segment_id =
     (if segment_type = 0 then
        (if length segment_data \<ge> 2 \<and> time \<le> segment_data ! 0
         then (Inr (Some (segment_data ! 1)), bc) else (Inr None, bc))
      else if segment_type = 1 then
        (if length segment_data \<ge> 6 then
           (let start_time = segment_data ! 0; end_time = segment_data ! 4 in
            if time \<ge> start_time \<and> time \<le> end_time then
              (let t = (if end_time > start_time
                        then (time - start_time) / (end_time - start_time) else 0);
                   bc1 = (if curve_cache bc segment_id = None
                          then create_curve_cache bc segment_id (segment_data ! 1)
                                 (segment_data ! 3) (segment_data ! 5) (segment_data ! 1)
                          else bc)
               in (case evaluate_cached bc1 segment_id t of
                     Inl e \<Rightarrow> (Inl e, bc1)
                   | Inr v \<Rightarrow> (Inr (Some v), bc1)))
            else (Inr None, bc))
         else (Inr None, bc))
      else (Inr None, bc))"

text \<open>Python's \<open>str\<close> of a natural number, for the segment id \<open>f"{curve['Id']}_{i-3}"\<close>.\<close>

fun nat_str :: "nat \<Rightarrow> string" where
  "nat_str n = (if n < 10 then [char_of (48 + n)]
                else nat_str (n div 10) @ [char_of (48 + n mod 10)])"

declare nat_str.simps [simp del]

text \<open>
  The \<open>while i < len(segments)\<close> loop of \<open>evaluate_curve\<close>; \<open>i\<close> is the index at the top
  of the loop, where the segment type is read, and \<open>val\<close> the last value found.
  \<open>curve_id\<close> is \<open>curve['Id']\<close>, read only when a segment id is built.
\<close>

function segments_loop ::
  "BezierCalculator \<Rightarrow> py_error + string \<Rightarrow> real list \<Rightarrow> real \<Rightarrow> nat \<Rightarrow> real option
     \<Rightarrow> (py_error + real option) \<times> BezierCalculator" where
  "segments_loop bc curve_id segments time i val =
     (if i < length segments then
        (if segments ! i = 0 then
           (if i + 2 < length segments then
              (case curve_id of
                 Inl e \<Rightarrow> (Inl e, bc)
               | Inr cid \<Rightarrow>
                  (case evaluate_segment bc 0 time (take 2 (drop (i + 1) segments))
                          (cid @ ''_'' @ nat_str i) of
                     (Inl e, bc1) \<Rightarrow> (Inl e, bc1)
                   | (Inr segment_value, bc1) \<Rightarrow>
                       segments_loop bc1 curve_id segments time (i + 3)
                         (case segment_value of Some v \<Rightarrow> Some v | None \<Rightarrow> val)))
            else segments_loop bc curve_id segments time (i + 1) val)
         else if segments ! i = 1 then
           (if i + 6 < length segments then
              (case curve_id of
                 Inl e \<Rightarrow> (Inl e, bc)
               | Inr cid \<Rightarrow>
                  (case evaluate_segment bc 1 time (take 6 (drop (i + 1) segments))
                          (cid @ ''_'' @ nat_str i) of
                     (Inl e, bc1) \<Rightarrow> (Inl e, bc1)
                   | (Inr segment_value, bc1) \<Rightarrow>
                       segments_loop bc1 curve_id segments time (i + 7)
                         (case segment_value of Some v \<Rightarrow> Some v | None \<Rightarrow> val)))
            else segments_loop bc curve_id segments time (i + 1) val)
         else segments_loop bc curve_id segments time (i + 2) val)
      else (Inr val, bc))"
  by pat_completeness auto
termination
  by (relation "measure (\<lambda>(bc, curve_id, segments, time, i, val). length segments - i)") auto

declare segments_loop.simps [simp del]

text \<open>Truth value of a document value, as \<open>if x\<close>, \<open>not x\<close> and \<open>x and y\<close> take it.\<close>

definition truthy :: "json \<Rightarrow> bool" where
  "truthy x =
     (case x of
        JNull \<Rightarrow> False
      | JBool b \<Rightarrow> b
      | JNum r \<Rightarrow> r \<noteq> 0
      | JStr s \<Rightarrow> s \<noteq> []
      | JArr xs \<Rightarrow> xs \<noteq> []
      | JObj kvs \<Rightarrow> kvs \<noteq> [])"

text \<open>A document value in arithmetic or in a comparison with a number.\<close>

definition as_number :: "json \<Rightarrow> py_error + real" where
  "as_number x =
     (case x of
        JNum r \<Rightarrow> Inr r
      | JBool b \<Rightarrow> Inr (if b then 1 else 0)
      | _ \<Rightarrow> Inl TypeError)"

text \<open>\<open>x[key]\<close> with a string key.\<close>

definition dict_item :: "json \<Rightarrow> string \<Rightarrow> py_error + json" where
  "dict_item x key =
     (case x of
        JObj kvs \<Rightarrow> (case map_of kvs key of Some v \<Rightarrow> Inr v | None \<Rightarrow> Inl KeyError)
      | _ \<Rightarrow> Inl TypeError)"

text \<open>
  Parameter and curve ids are strings, the key type of the parameter store; an id of
  another type is a \<open>TypeError\<close> of the model.
\<close>

definition id_string :: "json \<Rightarrow> py_error + string" where
  "id_string x = (case x of JStr s \<Rightarrow> Inr s | _ \<Rightarrow> Inl TypeError)"

text \<open>The flat list \<open>Segments\<close> of numbers; another shape is a \<open>TypeError\<close> of the model.\<close>

fun number_list :: "json list \<Rightarrow> py_error + real list" where
  "number_list [] = Inr []"
| "number_list (x # xs) =
     (case x of
        JNum r \<Rightarrow> (case number_list xs of Inl e \<Rightarrow> Inl e | Inr rs \<Rightarrow> Inr (r # rs))
      | _ \<Rightarrow> Inl TypeError)"

text \<open>Python's \<open>a % b\<close> and \<open>a / b\<close> on floats.\<close>

definition py_mod :: "real \<Rightarrow> real \<Rightarrow> py_error + real" where
  "py_mod a b = (if b = 0 then Inl ZeroDivisionError else Inr (a - b * of_int \<lfloor>a / b\<rfloor>))"

definition py_div :: "real \<Rightarrow> real \<Rightarrow> py_error + real" where
  "py_div a b = (if b = 0 then Inl ZeroDivisionError else Inr (a / b))"

definition evaluate_curve ::
  "BezierCalculator \<Rightarrow> json \<Rightarrow> real \<Rightarrow> (py_error + real) \<times> BezierCalculator" where
  "evaluate_curve bc curve time =
     (case dict_get curve ''Segments'' (JArr []) of
        Inl e \<Rightarrow> (Inl e, bc)
      | Inr segments \<Rightarrow>
         (if \<not> truthy segments then (Inr 0, bc)
          else
            (case (case segments of JArr xs \<Rightarrow> number_list xs | _ \<Rightarrow> Inl TypeError) of
               Inl e \<Rightarrow> (Inl e, bc)
             | Inr segs \<Rightarrow>
                (case segments_loop bc (bind_err (dict_item curve ''Id'') id_string) segs time 0 None of
                   (Inl e, bc1) \<Rightarrow> (Inl e, bc1)
                 | (Inr val, bc1) \<Rightarrow> (Inr (case val of Some v \<Rightarrow> v | None \<Rightarrow> 0), bc1)))))"

section \<open>Motion playback (motion_parser.py, MotionManager)\<close>

text \<open>
  What \<open>self.motions\<close> holds. \<open>load_motion\<close> stores the \<open>Motion\<close> objects of the parser,
  and \<open>play_motion\<close> reads attributes of the entries; \<open>update\<close> calls \<open>get\<close> on them, as
  on the raw dict of a motion document. A \<open>Motion\<close> has no \<open>get\<close>, a dict has no
  \<open>loop\<close>, \<open>fade_in_time\<close> or \<open>fade_out_time\<close>.
\<close>

datatype motion_value = MotionObj Motion | MotionDict json

definition motion_get :: "motion_value \<Rightarrow> string \<Rightarrow> json \<Rightarrow> py_error + json" where
  "motion_get m key dflt =
     (case m of MotionObj obj \<Rightarrow> Inl AttributeError | MotionDict d \<Rightarrow> dict_get d key dflt)"

definition motion_attr :: "motion_value \<Rightarrow> (Motion \<Rightarrow> json) \<Rightarrow> py_error + json" where
  "motion_attr m field =
     (case m of MotionObj obj \<Rightarrow> Inr (field obj) | MotionDict d \<Rightarrow> Inl AttributeError)"

record current_motion_dict =
  cm_name :: string
  cm_time :: real
  cm_loop :: json
  cm_fade_in_time :: json

record fade_out_motion_dict =
  fo_motion :: motion_value
  fo_start_time :: real
  fo_fade_out_time :: json

record MotionManager =
  parameter_manager :: ParameterManager
  motion_parser :: MotionParser
  current_motion :: "current_motion_dict option"
  fade_out_motion :: "fade_out_motion_dict option"
  current_time :: real
  motions :: "string \<rightharpoonup> motion_value"

definition MotionManager_init :: "ParameterManager \<Rightarrow> MotionManager" where
  "MotionManager_init pm =
     \<lparr>parameter_manager = pm, motion_parser = MotionParser_init, current_motion = None,
      fade_out_motion = None, current_time = 0, motions = Map.empty\<rparr>"

text \<open>
  \<open>play_motion\<close>: the returned boolean or the exception raised, and the manager. No
  attribute is assigned before the last possible exception.
\<close>

definition play_motion ::
  "MotionManager \<Rightarrow> string \<Rightarrow> bool option \<Rightarrow> real option \<Rightarrow> (py_error + bool) \<times> MotionManager" where
  "play_motion mm motion_name loop fade_in_time =
     (case motions mm motion_name of
        None \<Rightarrow> (Inr False, mm)
      | Some motion \<Rightarrow>
         (case bind_err (case loop of Some b \<Rightarrow> Inr (JBool b) | None \<Rightarrow> motion_attr motion m_loop) (\<lambda>loop1.
               bind_err (case fade_in_time of Some r \<Rightarrow> Inr (JNum r)
                         | None \<Rightarrow> motion_attr motion m_fade_in_time) (\<lambda>fade_in_time1.
               bind_err (case current_motion mm of
                           None \<Rightarrow> Inr (fade_out_motion mm)
                         | Some cm \<Rightarrow>
                            (case motions mm (cm_name cm) of
                               None \<Rightarrow> Inl KeyError
                             | Some cur \<Rightarrow>
                                bind_err (motion_attr cur m_fade_out_time) (\<lambda>fade_out_time.
                                  Inr (Some \<lparr>fo_motion = cur,
                                              fo_start_time = current_time mm - cm_time cm,
                                              fo_fade_out_time = fade_out_time\<rparr>)))) (\<lambda>fo.
                 Inr (mm\<lparr>fade_out_motion := fo,
                          current_motion := Some \<lparr>cm_name = motion_name, cm_time = 0,
                             cm_loop = loop1, cm_fade_in_time = fade_in_time1\<rparr>\<rparr>)))) of
            Inl e \<Rightarrow> (Inl e, mm)
          | Inr mm1 \<Rightarrow> (Inr True, mm1)))"

definition motion_duration :: "motion_value \<Rightarrow> py_error + json" where
  "motion_duration m =
     bind_err (motion_get m ''Meta'' (JObj [])) (\<lambda>meta. dict_get meta ''Duration'' (JNum 3))"

text \<open>\<open>if self.current_motion["loop"] and self.current_motion["time"] > duration: ...\<close>\<close>

definition wrap_time :: "current_motion_dict \<Rightarrow> json \<Rightarrow> py_error + current_motion_dict" where
  "wrap_time cm duration =
     (if truthy (cm_loop cm) then
        bind_err (as_number duration) (\<lambda>d.
          if cm_time cm > d
          then bind_err (py_mod (cm_time cm) d) (\<lambda>t. Inr (cm\<lparr>cm_time := t\<rparr>))
          else Inr cm)
      else Inr cm)"

definition fade_in_weight_of :: "current_motion_dict \<Rightarrow> py_error + real" where
  "fade_in_weight_of cm =
     bind_err (as_number (cm_fade_in_time cm)) (\<lambda>f.
       if f > 0 then bind_err (py_div (cm_time cm) f) (\<lambda>q. Inr (min q 1)) else Inr 1)"

text \<open>The local time of the fading-out motion, computed twice by \<open>update\<close> in the same way.\<close>

definition fade_out_local_time :: "MotionManager \<Rightarrow> fade_out_motion_dict \<Rightarrow> py_error + real" where
  "fade_out_local_time mm fo =
     bind_err (motion_duration (fo_motion fo)) (\<lambda>duration.
     bind_err (as_number duration) (\<lambda>d.
       if current_time mm - fo_start_time fo > d
       then py_mod (current_time mm - fo_start_time fo) d
       else Inr (current_time mm - fo_start_time fo)))"

definition fade_out_weight_of :: "MotionManager \<Rightarrow> py_error + real \<times> MotionManager" where
  "fade_out_weight_of mm =
     (case fade_out_motion mm of
        None \<Rightarrow> Inr (0, mm)
      | Some fo \<Rightarrow>
         bind_err (fade_out_local_time mm fo) (\<lambda>fade_out_time.
         bind_err (as_number (fo_fade_out_time fo)) (\<lambda>f.
         bind_err (py_div fade_out_time f) (\<lambda>q.
           Inr (1 - min q 1,
                if min q 1 \<ge> 1 then mm\<lparr>fade_out_motion := None\<rparr> else mm)))))"

text \<open>
  \<open>for curve in motion_obj.get("Curves", [])\<close>: the curves of a list. A non-empty string
  or dict yields strings, on which \<open>curve["Target"]\<close> raises.
\<close>

definition curves_iter :: "json \<Rightarrow> py_error + json list" where
  "curves_iter v =
     (case v of
        JArr xs \<Rightarrow> Inr xs
      | JStr s \<Rightarrow> if s = [] then Inr [] else Inl TypeError
      | JObj kvs \<Rightarrow> if kvs = [] then Inr [] else Inl TypeError
      | _ \<Rightarrow> Inl TypeError)"

text \<open>
  The local dict \<open>parameters\<close>: parameter id to the pair of \<open>"value"\<close> and \<open>"weight"\<close>, in
  insertion order.
\<close>

type_synonym weighted = "(string \<times> real \<times> real) list"

text \<open>The loop over the curves of the active motion: each entry is assigned.\<close>

fun apply_curves ::
  "BezierCalculator \<Rightarrow> json list \<Rightarrow> real \<Rightarrow> real \<Rightarrow> weighted
     \<Rightarrow> py_error option \<times> BezierCalculator \<times> weighted" where
  "apply_curves bc [] time weight ps = (None, bc, ps)"
| "apply_curves bc (curve # rest) time weight ps =
     (case dict_item curve ''Target'' of
        Inl e \<Rightarrow> (Some e, bc, ps)
      | Inr target \<Rightarrow>
         (if target = JStr ''Parameter'' then
            (case bind_err (dict_item curve ''Id'') id_string of
               Inl e \<Rightarrow> (Some e, bc, ps)
             | Inr param_id \<Rightarrow>
                (case evaluate_curve bc curve time of
                   (Inl e, bc1) \<Rightarrow> (Some e, bc1, ps)
                 | (Inr v, bc1) \<Rightarrow>
                     apply_curves bc1 rest time weight
                       (AList.update param_id (v * weight, weight) ps)))
          else apply_curves bc rest time weight ps))"

text \<open>The loop over the curves of the fading-out motion: an existing entry is added to.\<close>

fun blend_curves ::
  "BezierCalculator \<Rightarrow> json list \<Rightarrow> real \<Rightarrow> real \<Rightarrow> weighted
     \<Rightarrow> py_error option \<times> BezierCalculator \<times> weighted" where
  "blend_curves bc [] time weight ps = (None, bc, ps)"
| "blend_curves bc (curve # rest) time weight ps =
     (case dict_item curve ''Target'' of
        Inl e \<Rightarrow> (Some e, bc, ps)
      | Inr target \<Rightarrow>
         (if target = JStr ''Parameter'' then
            (case bind_err (dict_item curve ''Id'') id_string of
               Inl e \<Rightarrow> (Some e, bc, ps)
             | Inr param_id \<Rightarrow>
                (case evaluate_curve bc curve time of
                   (Inl e, bc1) \<Rightarrow> (Some e, bc1, ps)
                 | (Inr v, bc1) \<Rightarrow>
                     blend_curves bc1 rest time weight
                       (case map_of ps param_id of
                          Some (v0, w0) \<Rightarrow> AList.update param_id (v0 + v * weight, w0 + weight) ps
                        | None \<Rightarrow> AList.update param_id (v * weight, weight) ps)))
          else blend_curves bc rest time weight ps))"

definition final_parameters :: "weighted \<Rightarrow> (string \<times> real) list" where
  "final_parameters ps =
     map (\<lambda>(param_id, v, w). (param_id, v / w)) (filter (\<lambda>(param_id, v, w). w > 0) ps)"

definition set_calculator :: "MotionManager \<Rightarrow> BezierCalculator \<Rightarrow> MotionManager" where
  "set_calculator mm bc = mm\<lparr>motion_parser := (motion_parser mm)\<lparr>segment_evaluator := bc\<rparr>\<rparr>"

text \<open>
  The second half of \<open>update\<close>, from \<open>parameters = {}\<close> on. The third component of the
  result is the local dict \<open>parameters\<close> as it stands when the function is left.
\<close>

definition update_blend ::
  "MotionManager \<Rightarrow> motion_value \<Rightarrow> real \<Rightarrow> real \<Rightarrow> real
     \<Rightarrow> py_error option \<times> MotionManager \<times> weighted" where
  "update_blend mm motion_obj motion_time fade_in_weight fade_out_weight =
     (case (if fade_in_weight > 0 then
              (case bind_err (motion_get motion_obj ''Curves'' (JArr [])) curves_iter of
                 Inl e \<Rightarrow> (Some e, segment_evaluator (motion_parser mm), [])
               | Inr curves \<Rightarrow>
                   apply_curves (segment_evaluator (motion_parser mm)) curves motion_time
                     fade_in_weight [])
            else (None, segment_evaluator (motion_parser mm), [])) of
        (Some e, bc1, ps) \<Rightarrow> (Some e, set_calculator mm bc1, ps)
      | (None, bc1, ps) \<Rightarrow>
         (let mm4 = (set_calculator mm bc1)\<lparr>parameter_manager :=
                       update_parameters (parameter_manager mm) (final_parameters ps)\<rparr>
          in case fade_out_motion mm4 of
               None \<Rightarrow> (None, mm4, ps)
             | Some fo \<Rightarrow>
                (if fade_out_weight > 0 then
                   (case bind_err (fade_out_local_time mm4 fo) (\<lambda>fade_out_time.
                         bind_err (bind_err (motion_get (fo_motion fo) ''Curves'' (JArr [])) curves_iter)
                           (\<lambda>curves. Inr (fade_out_time, curves))) of
                      Inl e \<Rightarrow> (Some e, mm4, ps)
                    | Inr (fade_out_time, curves) \<Rightarrow>
                       (case blend_curves bc1 curves fade_out_time fade_out_weight ps of
                          (e, bc2, ps2) \<Rightarrow> (e, set_calculator mm4 bc2, ps2)))
                 else (None, mm4, ps))))"

definition update_run ::
  "MotionManager \<Rightarrow> real \<Rightarrow> py_error option \<times> MotionManager \<times> weighted" where
  "update_run mm delta_time =
     (case current_motion mm of
        None \<Rightarrow> (None, mm, [])
      | Some cm0 \<Rightarrow>
         (let cm1 = cm0\<lparr>cm_time := cm_time cm0 + delta_time\<rparr>;
              mm1 = mm\<lparr>current_time := current_time mm + delta_time, current_motion := Some cm1\<rparr>
          in case motions mm1 (cm_name cm1) of
               None \<Rightarrow> (None, mm1\<lparr>current_motion := None\<rparr>, [])
             | Some motion_obj \<Rightarrow>
                (case bind_err (motion_duration motion_obj) (wrap_time cm1) of
                   Inl e \<Rightarrow> (Some e, mm1, [])
                 | Inr cm2 \<Rightarrow>
                    (case fade_in_weight_of cm2 of
                       Inl e \<Rightarrow> (Some e, mm1\<lparr>current_motion := Some cm2\<rparr>, [])
                     | Inr fade_in_weight \<Rightarrow>
                        (case fade_out_weight_of (mm1\<lparr>current_motion := Some cm2\<rparr>) of
                           Inl e \<Rightarrow> (Some e, mm1\<lparr>current_motion := Some cm2\<rparr>, [])
                         | Inr (fade_out_weight, mm3) \<Rightarrow>
                             update_blend mm3 motion_obj (cm_time cm2) fade_in_weight
                               fade_out_weight)))))"

text \<open>\<open>update\<close>: the exception raised, if any, and the manager.\<close>

definition update :: "MotionManager \<Rightarrow> real \<Rightarrow> py_error option \<times> MotionManager" where
  "update mm delta_time = (case update_run mm delta_time of (e, mm1, ps) \<Rightarrow> (e, mm1))"

subsection \<open>Two motions on one parameter\<close>

text \<open>
  Two motion documents with one curve each on the parameter \<open>ParamAngleX\<close>, holding 10
  and 20, both with fade times of one second; the \<open>Motion\<close> objects that
  \<open>Motion.from_dict\<close> builds from them; a manager that holds the objects, as
  \<open>load_motion\<close> stores them; and the manager after \<open>play_motion("A")\<close> and
  \<open>play_motion("B")\<close>. \<open>dict_blend_state\<close> is the same point of the playback with the raw
  documents in place of the objects.
\<close>

definition doc_A :: json where
  "doc_A = JObj [(''Meta'', JObj [(''Duration'', JNum 2), (''FadeInTime'', JNum 1), (''FadeOutTime'', JNum 1)]),
     (''Curves'', JArr [JObj [(''Target'', JStr ''Parameter''), (''Id'', JStr ''ParamAngleX''),
        (''Segments'', JArr [JNum 0, JNum 100, JNum 10])]])]"

definition doc_B :: json where
  "doc_B = JObj [(''Meta'', JObj [(''Duration'', JNum 2), (''FadeInTime'', JNum 1), (''FadeOutTime'', JNum 1)]),
     (''Curves'', JArr [JObj [(''Target'', JStr ''Parameter''), (''Id'', JStr ''ParamAngleX''),
        (''Segments'', JArr [JNum 0, JNum 100, JNum 20])]])]"

definition motion_A :: Motion where
  "motion_A = \<lparr>m_id = ''A'', m_duration = JNum 2, m_fps = JNum 30, m_loop = JBool True,
     m_fade_in_time = JNum 1, m_fade_out_time = JNum 1, m_curves = ListRef 0\<rparr>"

definition motion_B :: Motion where
  "motion_B = \<lparr>m_id = ''B'', m_duration = JNum 2, m_fps = JNum 30, m_loop = JBool True,
     m_fade_in_time = JNum 1, m_fade_out_time = JNum 1, m_curves = ListRef 1\<rparr>"

definition two_motions :: MotionManager where
  "two_motions = (MotionManager_init ParameterManager_init)
     \<lparr>motions := [''A'' \<mapsto> MotionObj motion_A, ''B'' \<mapsto> MotionObj motion_B]\<rparr>"

definition playing_B_over_A :: MotionManager where
  "playing_B_over_A = snd (play_motion (snd (play_motion two_motions ''A'' None None)) ''B'' None None)"

definition dict_blend_state :: MotionManager where
  "dict_blend_state = (MotionManager_init ParameterManager_init)
     \<lparr>motions := [''A'' \<mapsto> MotionDict doc_A, ''B'' \<mapsto> MotionDict doc_B],
      current_motion := Some \<lparr>cm_name = ''B'', cm_time = 0, cm_loop = JBool True, cm_fade_in_time = JNum 1\<rparr>,
      fade_out_motion := Some \<lparr>fo_motion = MotionDict doc_A, fo_start_time = 0, fo_fade_out_time = JNum 1\<rparr>\<rparr>"

section \<open>Physics (physics.py)\<close>

text \<open>
  The numpy vectors of two \<open>float32\<close> components are pairs of reals, with the operations
  the code uses on them. No two points share a position array: the constructor and
  \<open>update_points\<close> create them anew.
\<close>

type_synonym vec2 = "real \<times> real"

definition vadd :: "vec2 \<Rightarrow> vec2 \<Rightarrow> vec2" where
  "vadd u v = (fst u + fst v, snd u + snd v)"

definition vsub :: "vec2 \<Rightarrow> vec2 \<Rightarrow> vec2" where
  "vsub u v = (fst u - fst v, snd u - snd v)"

definition vscale :: "vec2 \<Rightarrow> real \<Rightarrow> vec2" where
  "vscale u k = (fst u * k, snd u * k)"

text \<open>\<open>np.linalg.norm\<close> of a vector.\<close>

definition vnorm :: "vec2 \<Rightarrow> real" where
  "vnorm u = sqrt (fst u * fst u + snd u * snd u)"

record PhysicsPoint =
  position :: vec2
  prev_position :: vec2
  velocity :: vec2
  mass :: real
  fixed :: bool

definition PhysicsPoint_init :: "real \<Rightarrow> real \<Rightarrow> real \<Rightarrow> bool \<Rightarrow> PhysicsPoint" where
  "PhysicsPoint_init x y m f =
     \<lparr>position = (x, y), prev_position = (x, y), velocity = (0, 0), mass = m, fixed = f\<rparr>"

record PhysicsSpring =
  point1_idx :: int
  point2_idx :: int
  rest_length :: "real option"
  stiffness :: real

record PhysicsGroup =
  group_id :: string
  influence_parameter :: string
  input_parameter :: string
  points :: "PhysicsPoint list"
  springs :: "PhysicsSpring list"

record PhysicsSystem =
  physics_parameter_manager :: ParameterManager
  groups :: "PhysicsGroup list"
  gravity :: vec2
  air_resistance :: real

definition PhysicsSystem_init :: "ParameterManager \<Rightarrow> PhysicsSystem" where
  "PhysicsSystem_init pm =
     \<lparr>physics_parameter_manager = pm, groups = [], gravity = (0, - 98 / 10), air_resistance = 1 / 100\<rparr>"

text \<open>The position in the list that Python's index \<open>i\<close> denotes, when \<open>xs[i]\<close> does not raise.\<close>

definition py_position :: "'a list \<Rightarrow> int \<Rightarrow> nat" where
  "py_position xs i = (if i < 0 then nat (int (length xs) + i) else nat i)"

text \<open>
  The body of the loop over the springs in \<open>solve_constraints\<close>. \<open>point1\<close> is
  corrected before \<open>point2\<close>; the two are one object only when the spring joins a point to
  itself, and then the length is 0 and the spring is skipped.
\<close>

definition relax_spring :: "PhysicsPoint list \<Rightarrow> PhysicsSpring \<Rightarrow> py_error + PhysicsPoint list" where
  "relax_spring ps spring =
     (if point1_idx spring \<ge> int (length ps) \<or> point2_idx spring \<ge> int (length ps) then Inr ps
      else
        (case py_index ps (point1_idx spring) of Inl e \<Rightarrow> Inl e | Inr point1 \<Rightarrow>
        (case py_index ps (point2_idx spring) of Inl e \<Rightarrow> Inl e | Inr point2 \<Rightarrow>
           (let delta = vsub (position point2) (position point1);
                current_length = vnorm delta
            in if current_length < 1 / 10000 then Inr ps
               else
                 (case rest_length spring of
                    None \<Rightarrow> Inl TypeError
                  | Some rest \<Rightarrow>
                     (let diff_ratio = (rest - current_length) / current_length;
                          correction = vscale (vscale (vscale delta diff_ratio) (1 / 2)) (stiffness spring);
                          ps1 = (if \<not> fixed point1
                                 then ps[py_position ps (point1_idx spring) :=
                                           point1\<lparr>position := vsub (position point1) correction\<rparr>]
                                 else ps);
                          ps2 = (if \<not> fixed point2
                                 then ps1[py_position ps (point2_idx spring) :=
                                           point2\<lparr>position := vadd (position point2) correction\<rparr>]
                                 else ps1)
                      in Inr ps2))))))"

text \<open>One pass over the springs; an exception leaves the points as corrected so far.\<close>

fun relax_springs :: "PhysicsPoint list \<Rightarrow> PhysicsSpring list \<Rightarrow> py_error option \<times> PhysicsPoint list" where
  "relax_springs ps [] = (None, ps)"
| "relax_springs ps (spring # rest) =
     (case relax_spring ps spring of
        Inl e \<Rightarrow> (Some e, ps)
      | Inr ps1 \<Rightarrow> relax_springs ps1 rest)"

fun relax_rounds :: "nat \<Rightarrow> PhysicsSpring list \<Rightarrow> PhysicsPoint list \<Rightarrow> py_error option \<times> PhysicsPoint list" where
  "relax_rounds 0 ss ps = (None, ps)"
| "relax_rounds (Suc n) ss ps =
     (case relax_springs ps ss of
        (Some e, ps1) \<Rightarrow> (Some e, ps1)
      | (None, ps1) \<Rightarrow> relax_rounds n ss ps1)"

text \<open>\<open>solve_constraints\<close>: \<open>for _ in range(3)\<close> over the passes.\<close>

definition solve_constraints :: "PhysicsGroup \<Rightarrow> py_error option \<times> PhysicsGroup" where
  "solve_constraints g =
     (case relax_rounds 3 (springs g) (points g) of (e, ps) \<Rightarrow> (e, g\<lparr>points := ps\<rparr>))"

definition apply_external_forces :: "PhysicsSystem \<Rightarrow> PhysicsGroup \<Rightarrow> real \<Rightarrow> real \<Rightarrow> PhysicsGroup" where
  "apply_external_forces sys g input_value delta_time =
     g\<lparr>points := map (\<lambda>point.
        if fixed point then point
        else
          (let gravity_force = vscale (vscale (gravity sys) (mass point)) delta_time;
               input_force = vscale (input_value * (1 / 10), 0) delta_time;
               v1 = vadd (velocity point) (vadd gravity_force input_force)
           in point\<lparr>velocity := vscale v1 (1 - air_resistance sys)\<rparr>)) (points g)\<rparr>"

text \<open>
  \<open>update_points\<close>. The division by \<open>delta_time\<close> is numpy's, which raises nothing; at
  \<open>delta_time = 0\<close> the model has HOL's \<open>x / 0 = 0\<close> where numpy has an infinity or a nan.
\<close>

definition update_points :: "PhysicsGroup \<Rightarrow> real \<Rightarrow> PhysicsGroup" where
  "update_points g delta_time =
     g\<lparr>points := map (\<lambda>point.
        if fixed point then point
        else
          (let current_pos = position point;
               new_pos = vadd (vsub (vscale (position point) 2) (prev_position point))
                           (vscale (velocity point) delta_time)
           in point\<lparr>prev_position := current_pos, position := new_pos,
                    velocity := vscale (vsub new_pos current_pos) (1 / delta_time)\<rparr>)) (points g)\<rparr>"

definition calculate_result :: "PhysicsGroup \<Rightarrow> real" where
  "calculate_result g =
     (if points g = [] then 0
      else (fst (position (last (points g))) - fst (position (hd (points g)))) * 5)"

text \<open>The body of the loop over the groups in \<open>update\<close>, for one group.\<close>

definition update_group ::
  "PhysicsSystem \<Rightarrow> ParameterManager \<Rightarrow> PhysicsGroup \<Rightarrow> real
     \<Rightarrow> py_error option \<times> ParameterManager \<times> PhysicsGroup" where
  "update_group sys pm g delta_time =
     (let input_value = get_parameter pm (input_parameter g) 0;
          g1 = apply_external_forces sys g input_value delta_time;
          g2 = update_points g1 delta_time
      in case solve_constraints g2 of
           (Some e, g3) \<Rightarrow> (Some e, pm, g3)
         | (None, g3) \<Rightarrow> (None, set_parameter pm (influence_parameter g3) (calculate_result g3), g3))"

fun update_groups_loop ::
  "PhysicsSystem \<Rightarrow> ParameterManager \<Rightarrow> PhysicsGroup list \<Rightarrow> real
     \<Rightarrow> py_error option \<times> ParameterManager \<times> PhysicsGroup list" where
  "update_groups_loop sys pm [] delta_time = (None, pm, [])"
| "update_groups_loop sys pm (g # rest) delta_time =
     (case update_group sys pm g delta_time of
        (Some e, pm1, g1) \<Rightarrow> (Some e, pm1, g1 # rest)
      | (None, pm1, g1) \<Rightarrow>
         (case update_groups_loop sys pm1 rest delta_time of
            (e, pm2, rest1) \<Rightarrow> (e, pm2, g1 # rest1)))"

text \<open>The loop of \<open>update\<close> run with a given time step.\<close>

definition update_groups :: "PhysicsSystem \<Rightarrow> real \<Rightarrow> py_error option \<times> PhysicsSystem" where
  "update_groups sys delta_time =
     (case update_groups_loop sys (physics_parameter_manager sys) (groups sys) delta_time of
        (e, pm, gs) \<Rightarrow> (e, sys\<lparr>physics_parameter_manager := pm, groups := gs\<rparr>))"

text \<open>\<open>PhysicsSystem.update\<close>: \<open>delta_time = min(delta_time, 0.033)\<close>, then the loop.\<close>

definition physics_update :: "PhysicsSystem \<Rightarrow> real \<Rightarrow> py_error option \<times> PhysicsSystem" where
  "physics_update sys delta_time = update_groups sys (min delta_time (33 / 1000))"

text \<open>A pass keeps the fixed points: the list has the same length, and a fixed point is the same point after it.\<close>

definition keeps_fixed :: "PhysicsPoint list \<Rightarrow> PhysicsPoint list \<Rightarrow> bool" where
  "keeps_fixed ps ps1 \<longleftrightarrow>
     length ps1 = length ps \<and> (\<forall>i < length ps. fixed (ps ! i) \<longrightarrow> ps1 ! i = ps ! i)"

subsection \<open>Three small systems\<close>

text \<open>
  Two free points two units apart joined by a spring of rest length 1; the same with the
  first point fixed; and a system of one free point at the origin under gravity.
\<close>

definition stretched_pair :: PhysicsGroup where
  "stretched_pair = \<lparr>group_id = ''hair'', influence_parameter = ''ParamHairFront'',
     input_parameter = ''PARAM_ANGLE_X'',
     points = [PhysicsPoint_init 0 0 1 False, PhysicsPoint_init 2 0 1 False],
     springs = [\<lparr>point1_idx = 0, point2_idx = 1, rest_length = Some 1, stiffness = 1\<rparr>]\<rparr>"

definition anchored_pair :: PhysicsGroup where
  "anchored_pair = \<lparr>group_id = ''hair'', influence_parameter = ''ParamHairFront'',
     input_parameter = ''PARAM_ANGLE_X'',
     points = [PhysicsPoint_init 0 0 1 True, PhysicsPoint_init 2 0 1 False],
     springs = [\<lparr>point1_idx = 0, point2_idx = 1, rest_length = Some 1, stiffness = 1\<rparr>]\<rparr>"

definition falling_point :: PhysicsSystem where
  "falling_point = (PhysicsSystem_init ParameterManager_init)
     \<lparr>groups := [\<lparr>group_id = ''hair'', influence_parameter = ''ParamHairFront'',
                   input_parameter = ''PARAM_ANGLE_X'',
                   points = [PhysicsPoint_init 0 0 1 False], springs = []\<rparr>]\<rparr>"

section \<open>Properties of the parameter store\<close>

lemma clamp_idem: "clamp (clamp v lo hi) lo hi = clamp v lo hi"
  by (simp add: clamp_def)

lemma clamp_in_bounds: "lo \<le> hi \<Longrightarrow> lo \<le> clamp v lo hi \<and> clamp v lo hi \<le> hi"
  by (simp add: clamp_def)

lemma clamp_id: "lo \<le> v \<Longrightarrow> v \<le> hi \<Longrightarrow> clamp v lo hi = v"
  by (simp add: clamp_def)

text \<open>
  C2. After \<open>set_parameter(id, v)\<close>, \<open>get_parameter(id)\<close> returns \<open>v\<close> clamped to the
  bounds registered for \<open>id\<close>; an id that was not registered is registered by the call with
  default 0 and bounds -100 and 100, so the stored value is \<open>v\<close> clamped to these; and setting
  the same value a second time changes nothing.
\<close>

theorem set_get_clamp:
  "get_parameter (set_parameter pm param_id v) param_id dflt =
      clamp v (fst (bounds_of pm param_id)) (snd (bounds_of pm param_id))
   \<and> parameter_definitions (set_parameter pm param_id v) param_id =
      Some (case parameter_definitions pm param_id of
              Some d \<Rightarrow> d
            | None \<Rightarrow> \<lparr>pd_default = 0, pd_min = -100, pd_max = 100\<rparr>)
   \<and> set_parameter (set_parameter pm param_id v) param_id v = set_parameter pm param_id v"
  by (cases "parameter_definitions pm param_id")
     (simp_all add: set_parameter_def get_parameter_def register_parameter_def bounds_of_def clamp_idem)

section \<open>Properties of the curve evaluator\<close>

subsection \<open>The sample table\<close>

lemma length_cache_data: "length (cache_data p0 p1 p2 p3) = 201"
  by (simp add: cache_data_def precision_def)

lemma nth_cache_data: "i \<le> 200 \<Longrightarrow> cache_data p0 p1 p2 p3 ! i = (real i / 200, calculate_point p0 p1 p2 p3 (real i / 200))"
  unfolding cache_data_def precision_def
  by (simp add: nth_append less_Suc_eq_le del: upt_Suc)

lemma calculate_point_0: "calculate_point p0 p1 p2 p3 0 = p0"
  by (simp add: calculate_point_def)

lemma calculate_point_1: "calculate_point p0 p1 p2 p3 1 = p3"
  by (simp add: calculate_point_def)

lemma py_index_first: "py_index (cache_data p0 p1 p2 p3) 0 = Inr (0, p0)"
  by (simp add: py_index_def length_cache_data nth_cache_data calculate_point_0)

lemma py_index_last: "py_index (cache_data p0 p1 p2 p3) (-1) = Inr (1, p3)"
  by (simp add: py_index_def length_cache_data nth_cache_data calculate_point_1)

lemma cache_data_nonempty: "cache_data p0 p1 p2 p3 \<noteq> []"
  using length_cache_data[of p0 p1 p2 p3] by auto

lemma hd_cache_data: "hd (cache_data p0 p1 p2 p3) = (0, p0)"
  using nth_cache_data[of 0 p0 p1 p2 p3]
  by (simp add: hd_conv_nth cache_data_nonempty calculate_point_0)

lemma last_cache_data: "last (cache_data p0 p1 p2 p3) = (1, p3)"
  using nth_cache_data[of 200 p0 p1 p2 p3]
  by (simp add: last_conv_nth cache_data_nonempty length_cache_data calculate_point_1)

subsection \<open>The binary search\<close>

lemma sorted_times_mono:
  fixes c :: "(real \<times> real) list"
  assumes "sorted_wrt (<) (map fst c)" "0 \<le> i" "i \<le> j" "j < int (length c)"
  shows "fst (c ! nat i) \<le> fst (c ! nat j)"
proof (cases "i = j")
  case True
  then show ?thesis by simp
next
  case False
  with assms have lt: "nat i < nat j" "nat j < length c" by auto
  from assms(1) have "\<forall>a b. a < b \<longrightarrow> b < length c \<longrightarrow> fst (c ! a) < fst (c ! b)"
    by (simp add: sorted_wrt_iff_nth_less)
  with lt have "fst (c ! nat i) < fst (c ! nat j)" by blast
  then show ?thesis by simp
qed

lemma binary_search_sorted:
  assumes "sorted_wrt (<) (map fst c)"
  shows "0 \<le> left \<Longrightarrow> right < int (length c) \<Longrightarrow> left \<le> right + 1 \<Longrightarrow>
         (\<forall>i. 0 \<le> i \<and> i < left \<longrightarrow> fst (c ! nat i) < t) \<Longrightarrow>
         (\<forall>i. right < i \<and> i < int (length c) \<longrightarrow> t < fst (c ! nat i)) \<Longrightarrow>
         (\<exists>i < length c. fst (c ! i) = t \<and> binary_search c t left right = Inr (Inl (snd (c ! i))))
       \<or> (\<exists>r. -1 \<le> r \<and> r < int (length c) \<and> binary_search c t left right = Inr (Inr (r + 1, r))
             \<and> (\<forall>i. 0 \<le> i \<and> i \<le> r \<longrightarrow> fst (c ! nat i) < t)
             \<and> (\<forall>i. r < i \<and> i < int (length c) \<longrightarrow> t < fst (c ! nat i)))"
  using assms
proof (induction c t left right rule: binary_search.induct)
  case (1 c t left right)
  note srt = \<open>sorted_wrt (<) (map fst c)\<close>
  show ?case
  proof (cases "left \<le> right")
    case False
    with "1.prems" have eq: "left = right + 1" by simp
    have "binary_search c t left right = Inr (Inr (left, right))"
      using False by (simp add: binary_search.simps[of c t left right])
    then have "binary_search c t left right = Inr (Inr (right + 1, right))"
      by (simp only: eq)
    moreover have "-1 \<le> right" using "1.prems" eq by simp
    ultimately show ?thesis using "1.prems" eq by auto
  next
    case True
    define mid where "mid = (left + right) div 2"
    have mid: "left \<le> mid" "mid \<le> right" "0 \<le> mid" "mid < int (length c)"
      using True "1.prems" by (auto simp: mid_def)
    obtain tm vm where cm: "c ! nat mid = (tm, vm)" by (cases "c ! nat mid")
    have idx: "py_index c ((left + right) div 2) = Inr (tm, vm)"
      using mid cm by (simp add: py_index_def mid_def[symmetric])
    consider (lt) "tm < t" | (gt) "t < tm" | (eq) "tm = t" by linarith
    then show ?thesis
    proof cases
      case lt
      have unf: "binary_search c t left right = binary_search c t (mid + 1) right"
        using True idx lt by (simp add: binary_search.simps[of c t left right] mid_def)
      have below: "\<forall>i. 0 \<le> i \<and> i < mid + 1 \<longrightarrow> fst (c ! nat i) < t"
      proof (intro allI impI)
        fix i assume "0 \<le> i \<and> i < mid + 1"
        then have "fst (c ! nat i) \<le> fst (c ! nat mid)"
          using sorted_times_mono[OF srt, of i mid] mid by simp
        with lt cm show "fst (c ! nat i) < t" by simp
      qed
      have "(\<exists>i<length c. fst (c ! i) = t \<and> binary_search c t (mid + 1) right = Inr (Inl (snd (c ! i)))) \<or>
            (\<exists>r\<ge>- 1. r < int (length c) \<and> binary_search c t (mid + 1) right = Inr (Inr (r + 1, r)) \<and>
               (\<forall>i. 0 \<le> i \<and> i \<le> r \<longrightarrow> fst (c ! nat i) < t) \<and>
               (\<forall>i. r < i \<and> i < int (length c) \<longrightarrow> t < fst (c ! nat i)))"
        using "1.IH"(1)[OF True idx refl lt] mid "1.prems" below srt
        by (simp add: mid_def)
      then show ?thesis by (simp only: unf)
    next
      case gt
      have unf: "binary_search c t left right = binary_search c t left (mid - 1)"
        using True idx gt by (simp add: binary_search.simps[of c t left right] mid_def)
      have above: "\<forall>i. mid - 1 < i \<and> i < int (length c) \<longrightarrow> t < fst (c ! nat i)"
      proof (intro allI impI)
        fix i assume "mid - 1 < i \<and> i < int (length c)"
        then have "fst (c ! nat mid) \<le> fst (c ! nat i)"
          using sorted_times_mono[OF srt, of mid i] mid by simp
        with gt cm show "t < fst (c ! nat i)" by simp
      qed
      have ngt: "\<not> tm < t" using gt by simp
      have gt': "t < tm" using gt .
      have "(\<exists>i<length c. fst (c ! i) = t \<and> binary_search c t left (mid - 1) = Inr (Inl (snd (c ! i)))) \<or>
            (\<exists>r\<ge>- 1. r < int (length c) \<and> binary_search c t left (mid - 1) = Inr (Inr (r + 1, r)) \<and>
               (\<forall>i. 0 \<le> i \<and> i \<le> r \<longrightarrow> fst (c ! nat i) < t) \<and>
               (\<forall>i. r < i \<and> i < int (length c) \<longrightarrow> t < fst (c ! nat i)))"
        using "1.IH"(2)[OF True idx refl ngt gt'] mid "1.prems" above srt
        by (simp add: mid_def)
      then show ?thesis by (simp only: unf)
    next
      case eq
      have "binary_search c t left right = Inr (Inl vm)"
        using True idx eq by (simp add: binary_search.simps[of c t left right])
      moreover have "nat mid < length c" using mid by simp
      ultimately show ?thesis using cm eq by (intro disjI1 exI[of _ "nat mid"]) simp
    qed
  qed
qed

subsection \<open>The error of linear interpolation on a cubic\<close>

lemma sorted_cache_data: "sorted_wrt (<) (map fst (cache_data p0 p1 p2 p3))"
  unfolding sorted_wrt_iff_nth_less
  by (auto simp: length_cache_data nth_cache_data divide_strict_right_mono)

lemma second_difference_left:
  fixes p0 p1 p2 p3 :: real
  shows "p0 - 2 * p1 + p2 =
     3 * calculate_point p0 p1 p2 p3 0 - 15 / 2 * calculate_point p0 p1 p2 p3 (1 / 3)
     + 6 * calculate_point p0 p1 p2 p3 (2 / 3) - 3 / 2 * calculate_point p0 p1 p2 p3 1"
  by (simp add: calculate_point_def algebra_simps)

lemma second_difference_right:
  fixes p0 p1 p2 p3 :: real
  shows "p1 - 2 * p2 + p3 =
     3 * calculate_point p0 p1 p2 p3 1 - 15 / 2 * calculate_point p0 p1 p2 p3 (2 / 3)
     + 6 * calculate_point p0 p1 p2 p3 (1 / 3) - 3 / 2 * calculate_point p0 p1 p2 p3 0"
  by (simp add: calculate_point_def algebra_simps)

lemma interpolation_identity:
  assumes "a \<noteq> b"
  shows "calculate_point p0 p1 p2 p3 a
           + (t - a) / (b - a) * (calculate_point p0 p1 p2 p3 b - calculate_point p0 p1 p2 p3 a)
           - calculate_point p0 p1 p2 p3 t
         = (t - a) * (b - t) * ((p0 - 2 * p1 + p2) * (3 - (a + b + t)) + (p1 - 2 * p2 + p3) * (a + b + t))"
proof -
  have nz: "b - a \<noteq> 0" using assms by simp
  have "(b - a) * (calculate_point p0 p1 p2 p3 a
           + (t - a) / (b - a) * (calculate_point p0 p1 p2 p3 b - calculate_point p0 p1 p2 p3 a)
           - calculate_point p0 p1 p2 p3 t)
        = (b - a) * calculate_point p0 p1 p2 p3 a
           + (t - a) * (calculate_point p0 p1 p2 p3 b - calculate_point p0 p1 p2 p3 a)
           - (b - a) * calculate_point p0 p1 p2 p3 t"
  proof -
    have k: "(b - a) * ((t - a) / (b - a) * y) = (t - a) * y" for y
      using nz by simp
    show ?thesis by (simp only: right_diff_distrib distrib_left k)
  qed
  also have "\<dots> = (b - a) * ((t - a) * (b - t) * ((p0 - 2 * p1 + p2) * (3 - (a + b + t)) + (p1 - 2 * p2 + p3) * (a + b + t)))"
    unfolding calculate_point_def Let_def by algebra
  finally show ?thesis using nz by simp
qed

lemma four_point_bound:
  fixes x0 x1 x2 x3 lo hi :: real
  assumes "lo \<le> x0" "x0 \<le> hi" "lo \<le> x1" "x1 \<le> hi" "lo \<le> x2" "x2 \<le> hi" "lo \<le> x3" "x3 \<le> hi"
  shows "\<bar>3 * x0 - 15 / 2 * x1 + 6 * x2 - 3 / 2 * x3\<bar> \<le> 9 * (hi - lo)"
  using assms by (simp add: abs_le_iff)

lemma second_difference_bounds:
  assumes rng: "\<forall>s. 0 \<le> s \<and> s \<le> 1 \<longrightarrow>
            lo \<le> calculate_point p0 p1 p2 p3 s \<and> calculate_point p0 p1 p2 p3 s \<le> hi"
  shows "\<bar>p0 - 2 * p1 + p2\<bar> \<le> 9 * (hi - lo)" and "\<bar>p1 - 2 * p2 + p3\<bar> \<le> 9 * (hi - lo)"
proof -
  have b0: "lo \<le> calculate_point p0 p1 p2 p3 0" "calculate_point p0 p1 p2 p3 0 \<le> hi"
    using rng by auto
  have b1: "lo \<le> calculate_point p0 p1 p2 p3 (1 / 3)" "calculate_point p0 p1 p2 p3 (1 / 3) \<le> hi"
    using rng by auto
  have b2: "lo \<le> calculate_point p0 p1 p2 p3 (2 / 3)" "calculate_point p0 p1 p2 p3 (2 / 3) \<le> hi"
    using rng by auto
  have b3: "lo \<le> calculate_point p0 p1 p2 p3 1" "calculate_point p0 p1 p2 p3 1 \<le> hi"
    using rng by auto
  show "\<bar>p0 - 2 * p1 + p2\<bar> \<le> 9 * (hi - lo)"
    using four_point_bound[OF b0 b1 b2 b3] second_difference_left[of p0 p1 p2 p3] by linarith
  show "\<bar>p1 - 2 * p2 + p3\<bar> \<le> 9 * (hi - lo)"
    using four_point_bound[OF b3 b2 b1 b0] second_difference_right[of p1 p2 p3 p0] by linarith
qed

lemma blend_bound:
  fixes A D s R :: real
  assumes "\<bar>A\<bar> \<le> R" "\<bar>D\<bar> \<le> R" "0 \<le> s" "s \<le> 3"
  shows "\<bar>A * (3 - s) + D * s\<bar> \<le> 3 * R"
proof -
  have "\<bar>A * (3 - s)\<bar> \<le> R * (3 - s)"
    using assms by (simp add: abs_mult mult_right_mono)
  moreover have "\<bar>D * s\<bar> \<le> R * s"
    using assms by (simp add: abs_mult mult_right_mono)
  ultimately have "\<bar>A * (3 - s) + D * s\<bar> \<le> R * (3 - s) + R * s"
    by linarith
  then show ?thesis by (simp add: algebra_simps)
qed

lemma product_bound:
  fixes a b t :: real
  assumes "a \<le> t" "t \<le> b"
  shows "0 \<le> (t - a) * (b - t)" and "(t - a) * (b - t) \<le> (b - a)\<^sup>2 / 4"
proof -
  show "0 \<le> (t - a) * (b - t)" using assms by simp
  have "0 \<le> ((t - a) - (b - t))\<^sup>2" by simp
  then show "(t - a) * (b - t) \<le> (b - a)\<^sup>2 / 4"
    by (simp add: power2_eq_square algebra_simps)
qed

lemma interpolation_error:
  assumes rng: "\<forall>s. 0 \<le> s \<and> s \<le> 1 \<longrightarrow>
            lo \<le> calculate_point p0 p1 p2 p3 s \<and> calculate_point p0 p1 p2 p3 s \<le> hi"
    and ab: "0 \<le> a" "a \<le> t" "t \<le> b" "b \<le> 1" "a \<noteq> b"
  shows "\<bar>calculate_point p0 p1 p2 p3 a
           + (t - a) / (b - a) * (calculate_point p0 p1 p2 p3 b - calculate_point p0 p1 p2 p3 a)
           - calculate_point p0 p1 p2 p3 t\<bar>
         \<le> 27 * (hi - lo) * (b - a)\<^sup>2 / 4"
proof -
  let ?A = "p0 - 2 * p1 + p2" and ?D = "p1 - 2 * p2 + p3" and ?s = "a + b + t"
  have R: "0 \<le> hi - lo" using rng by (auto dest: spec[of _ 0])
  have "\<bar>?A * (3 - ?s) + ?D * ?s\<bar> \<le> 3 * (9 * (hi - lo))"
    using second_difference_bounds[OF rng] ab by (intro blend_bound) auto
  then have blend: "\<bar>?A * (3 - ?s) + ?D * ?s\<bar> \<le> 27 * (hi - lo)" by simp
  have prod: "0 \<le> (t - a) * (b - t)" "(t - a) * (b - t) \<le> (b - a)\<^sup>2 / 4"
    using product_bound[of a t b] ab by auto
  have "\<bar>(t - a) * (b - t) * (?A * (3 - ?s) + ?D * ?s)\<bar>
          = ((t - a) * (b - t)) * \<bar>?A * (3 - ?s) + ?D * ?s\<bar>"
    by (simp only: abs_mult[of "(t - a) * (b - t)"] abs_of_nonneg[OF prod(1)])
  also have "\<dots> \<le> ((b - a)\<^sup>2 / 4) * (27 * (hi - lo))"
    using prod blend R by (intro mult_mono) auto
  finally have "\<bar>(t - a) * (b - t) * (?A * (3 - ?s) + ?D * ?s)\<bar> \<le> 27 * (hi - lo) * (b - a)\<^sup>2 / 4"
    by (simp add: mult.commute)
  then show ?thesis
    by (simp only: interpolation_identity[OF ab(5), of p0 p1 p2 p3 t])
qed

subsection \<open>Cached against direct evaluation\<close>

lemma py_index_cache_data:
  assumes "0 \<le> i" "i \<le> 200"
  shows "py_index (cache_data p0 p1 p2 p3) i
           = Inr (real_of_int i / 200, calculate_point p0 p1 p2 p3 (real_of_int i / 200))"
proof -
  have "nat i \<le> 200" using assms by simp
  then have "cache_data p0 p1 p2 p3 ! nat i
      = (real (nat i) / 200, calculate_point p0 p1 p2 p3 (real (nat i) / 200))"
    by (rule nth_cache_data)
  moreover have "real (nat i) = real_of_int i" using assms by simp
  ultimately show ?thesis using assms by (simp add: py_index_def length_cache_data)
qed

text \<open>
  C5. With the table of precision 200, for every \<open>t\<close> in [0, 1] the cached evaluation
  returns a value, and it differs from \<open>calculate_point p0 p1 p2 p3 t\<close> by at most
  1/(2 * 200) of the curve's value range: of \<open>hi - lo\<close> for any bounds \<open>lo\<close>,
  \<open>hi\<close> that enclose the curve on [0, 1], the tightest ones included.
\<close>

theorem cached_vs_direct:
  assumes t: "0 \<le> t" "t \<le> 1"
    and rng: "\<forall>s. 0 \<le> s \<and> s \<le> 1 \<longrightarrow>
            lo \<le> calculate_point p0 p1 p2 p3 s \<and> calculate_point p0 p1 p2 p3 s \<le> hi"
  shows "\<exists>v. evaluate_cached (create_curve_cache bc curve_id p0 p1 p2 p3) curve_id t = Inr v
           \<and> \<bar>v - calculate_point p0 p1 p2 p3 t\<bar> \<le> (hi - lo) / (2 * real precision)"
proof -
  let ?c = "cache_data p0 p1 p2 p3"
  let ?f = "calculate_point p0 p1 p2 p3"
  let ?bc = "create_curve_cache bc curve_id p0 p1 p2 p3"
  have R: "0 \<le> hi - lo" using rng by (auto dest: spec[of _ 0])
  have cache: "curve_cache ?bc curve_id = Some ?c"
    by (simp add: create_curve_cache_def)
  consider (first) "t = 0" | (last) "t = 1" | (inner) "0 < t" "t < 1"
    using t by fastforce
  then show ?thesis
  proof cases
    case first
    then have "evaluate_cached ?bc curve_id t = Inr p0"
      by (simp add: evaluate_cached_def cache py_index_first)
    then show ?thesis using first R by (simp add: calculate_point_0 precision_def)
  next
    case last
    then have "evaluate_cached ?bc curve_id t = Inr p3"
      by (simp add: evaluate_cached_def cache py_index_first py_index_last)
    then show ?thesis using last R by (simp add: calculate_point_1 precision_def)
  next
    case inner
    have ev: "evaluate_cached ?bc curve_id t =
        (case binary_search ?c t 0 200 of
           Inl e \<Rightarrow> Inl e
         | Inr (Inl v) \<Rightarrow> Inr v
         | Inr (Inr (left, right)) \<Rightarrow>
            (case py_index ?c right of Inl e \<Rightarrow> Inl e | Inr (t1, v1) \<Rightarrow>
            (case py_index ?c left of Inl e \<Rightarrow> Inl e | Inr (t2, v2) \<Rightarrow>
               (let fraction = (if t2 \<noteq> t1 then (t - t1) / (t2 - t1) else 0)
                in Inr (v1 + fraction * (v2 - v1))))))"
      using inner
      by (simp add: evaluate_cached_def cache py_index_first py_index_last length_cache_data)
    have "(\<exists>i<length ?c. fst (?c ! i) = t \<and> binary_search ?c t 0 200 = Inr (Inl (snd (?c ! i))))
       \<or> (\<exists>r. -1 \<le> r \<and> r < int (length ?c) \<and> binary_search ?c t 0 200 = Inr (Inr (r + 1, r))
             \<and> (\<forall>i. 0 \<le> i \<and> i \<le> r \<longrightarrow> fst (?c ! nat i) < t)
             \<and> (\<forall>i. r < i \<and> i < int (length ?c) \<longrightarrow> t < fst (?c ! nat i)))"
      by (rule binary_search_sorted[OF sorted_cache_data]) (simp_all add: length_cache_data)
    then show ?thesis
    proof (elim disjE exE conjE)
      fix i
      assume i: "i < length ?c" "fst (?c ! i) = t"
        and bs: "binary_search ?c t 0 200 = Inr (Inl (snd (?c ! i)))"
      from i(1) have "i \<le> 200" by (simp add: length_cache_data)
      then have "?c ! i = (real i / 200, ?f (real i / 200))" by (rule nth_cache_data)
      with i(2) have "snd (?c ! i) = ?f t" by auto
      with bs ev have "evaluate_cached ?bc curve_id t = Inr (?f t)" by simp
      then show ?thesis using R by (simp add: precision_def)
    next
      fix r :: int
      assume r: "-1 \<le> r" "r < int (length ?c)"
        and bs: "binary_search ?c t 0 200 = Inr (Inr (r + 1, r))"
        and below: "\<forall>i. 0 \<le> i \<and> i \<le> r \<longrightarrow> fst (?c ! nat i) < t"
        and above: "\<forall>i. r < i \<and> i < int (length ?c) \<longrightarrow> t < fst (?c ! nat i)"
      have c0: "fst (?c ! nat 0) = 0" using nth_cache_data[of 0 p0 p1 p2 p3] by simp
      have c200: "fst (?c ! nat 200) = 1" using nth_cache_data[of 200 p0 p1 p2 p3] by simp
      have r0: "0 \<le> r"
      proof (rule ccontr)
        assume "\<not> 0 \<le> r"
        then have "t < fst (?c ! nat 0)" using above[rule_format, of 0] by (simp add: length_cache_data)
        with c0 inner show False by simp
      qed
      have r199: "r \<le> 199"
      proof (rule ccontr)
        assume "\<not> r \<le> 199"
        then have "fst (?c ! nat 200) < t" using below[rule_format, of 200] r by (simp add: length_cache_data)
        with c200 inner show False by simp
      qed
      define a where "a = real_of_int r / 200"
      define b where "b = real_of_int (r + 1) / 200"
      have ia: "py_index ?c r = Inr (a, ?f a)"
        using r0 r199 by (simp add: py_index_cache_data a_def)
      have ib: "py_index ?c (r + 1) = Inr (b, ?f b)"
        using r0 r199 by (simp add: py_index_cache_data b_def)
      have "fst (?c ! nat r) < t" using below[rule_format, of r] r0 by simp
      moreover have "?c ! nat r = (a, ?f a)"
        using ia r0 r199 by (simp add: py_index_def length_cache_data)
      ultimately have at: "a < t" by simp
      have "t < fst (?c ! nat (r + 1))" using above[rule_format, of "r + 1"] r199 by (simp add: length_cache_data)
      moreover have "?c ! nat (r + 1) = (b, ?f b)"
        using ib r0 r199 by (simp add: py_index_def length_cache_data)
      ultimately have tb: "t < b" by simp
      have ab: "0 \<le> a" "b \<le> 1" "a \<noteq> b" "b - a = 1 / 200"
        using r0 r199 by (simp_all add: a_def b_def field_simps)
      have res: "evaluate_cached ?bc curve_id t = Inr (?f a + (t - a) / (b - a) * (?f b - ?f a))"
        using ev bs ia ib ab(3) by (simp add: Let_def)
      have "\<bar>?f a + (t - a) / (b - a) * (?f b - ?f a) - ?f t\<bar> \<le> 27 * (hi - lo) * (b - a)\<^sup>2 / 4"
        using rng ab(1) at tb ab(2) ab(3) by (intro interpolation_error) auto
      also have "\<dots> = 27 / 160000 * (hi - lo)"
        by (simp add: ab(4) power2_eq_square)
      also have "\<dots> \<le> (hi - lo) / (2 * real precision)"
        using R by (simp add: precision_def)
      finally show ?thesis using res by simp
    qed
  qed
qed

theorem cached_vs_direct_witness:
  "\<exists>v. evaluate_cached (create_curve_cache BezierCalculator_init ''c'' 0 1 2 3) ''c'' (1 / 3) = Inr v
       \<and> \<bar>v - calculate_point 0 1 2 3 (1 / 3)\<bar> \<le> (3 - 0) / (2 * real precision)"
proof -
  have "\<forall>s. 0 \<le> s \<and> s \<le> 1 \<longrightarrow>
            0 \<le> calculate_point 0 1 2 3 s \<and> calculate_point 0 1 2 3 s \<le> 3"
  proof (intro allI impI)
    fix s :: real assume s: "0 \<le> s \<and> s \<le> 1"
    have "calculate_point 0 1 2 3 s = 3 * s"
      unfolding calculate_point_def Let_def by algebra
    with s show "0 \<le> calculate_point 0 1 2 3 s \<and> calculate_point 0 1 2 3 s \<le> 3" by simp
  qed
  then show ?thesis
    using cached_vs_direct[of "1 / 3" 0 0 1 2 3 3 BezierCalculator_init "''c''"] by simp
qed

text \<open>
  C7. For a curve cached by \<open>create_curve_cache\<close> the sample times run from 0 to 1, and
  \<open>evaluate_cached\<close> at a \<open>t\<close> below 0 returns the value of the first sample, at a
  \<open>t\<close> above 1 the value of the last sample: the boundary value itself, nothing extrapolated.
\<close>

theorem evaluate_cached_outside:
  "fst (hd (cache_data p0 p1 p2 p3)) = 0 \<and> fst (last (cache_data p0 p1 p2 p3)) = 1
 \<and> (t < 0 \<longrightarrow> evaluate_cached (create_curve_cache bc curve_id p0 p1 p2 p3) curve_id t
        = Inr (snd (hd (cache_data p0 p1 p2 p3))))
 \<and> (1 < t \<longrightarrow> evaluate_cached (create_curve_cache bc curve_id p0 p1 p2 p3) curve_id t
        = Inr (snd (last (cache_data p0 p1 p2 p3))))"
  by (simp add: evaluate_cached_def create_curve_cache_def py_index_first py_index_last
      hd_cache_data last_cache_data)

theorem evaluate_cached_outside_witness:
  "evaluate_cached (create_curve_cache BezierCalculator_init ''c'' 1 2 3 4) ''c'' (- 1)
     = Inr (snd (hd (cache_data 1 2 3 4)))
 \<and> evaluate_cached (create_curve_cache BezierCalculator_init ''c'' 1 2 3 4) ''c'' 2
     = Inr (snd (last (cache_data 1 2 3 4)))"
  using evaluate_cached_outside[of 1 2 3 4 "- 1" BezierCalculator_init "''c''"]
        evaluate_cached_outside[of 1 2 3 4 2 BezierCalculator_init "''c''"]
  by simp

section \<open>Properties of the motion loader\<close>

lemma make_curve_dict:
  assumes "is_dict x"
  shows "\<exists>curve. make_curve x = Inr curve \<and> is_dict curve"
proof -
  from assms obtain kvs where "x = JObj kvs" by (cases x) (auto simp: is_dict_def)
  then show ?thesis by (simp add: make_curve_def dict_get_def bind_err_def is_dict_def)
qed

lemma loop_feeds_itself_step:
  assumes "loop_feeds_itself h src i dst" "is_dict curve"
  shows "loop_feeds_itself (h[src := h ! src @ [curve]]) src (i + 1) dst"
  using assms by (auto simp: loop_feeds_itself_def nth_append)

lemma curves_loop_diverges:
  assumes "loop_feeds_itself h src i dst"
  shows "curves_loop h src i dst = None"
proof (rule ccontr)
  assume "curves_loop h src i dst \<noteq> None"
  then obtain y where ret: "curves_loop h src i dst = Some y" by auto
  have "\<not> loop_feeds_itself h src i dst"
  proof (rule curves_loop.raw_induct[where P = "\<lambda>h src i dst y. \<not> loop_feeds_itself h src i dst", OF _ ret])
    fix f h src i dst y
    assume IH: "\<And>h src i dst y. f h src i dst = Some y \<Longrightarrow> \<not> loop_feeds_itself h src i dst"
      and eq: "(if i < length (h ! src) then
                  (case make_curve (h ! src ! i) of
                     Inl e \<Rightarrow> Some (Some e, h)
                   | Inr curve \<Rightarrow>
                      (case dst of
                         ListRef a \<Rightarrow> f (h[a := h ! a @ [curve]]) src (i + 1) dst
                       | Immut v \<Rightarrow> Some (Some AttributeError, h)))
                else Some (None, h)) = Some y"
    show "\<not> loop_feeds_itself h src i dst"
    proof
      assume inv: "loop_feeds_itself h src i dst"
      then have i: "i < length (h ! src)" and dst: "dst = ListRef src"
        and "is_dict (h ! src ! i)"
        by (auto simp: loop_feeds_itself_def)
      then obtain curve where c: "make_curve (h ! src ! i) = Inr curve" "is_dict curve"
        using make_curve_dict by blast
      from eq i c dst have "f (h[src := h ! src @ [curve]]) src (i + 1) dst = Some y"
        by simp
      then have "\<not> loop_feeds_itself (h[src := h ! src @ [curve]]) src (i + 1) dst"
        by (rule IH)
      with loop_feeds_itself_step[OF inv c(2)] show False by simp
    qed
  qed
  with assms show False by simp
qed

lemma meta_dict:
  assumes "well_formed_motion_document kvs"
  shows "\<exists>m. dict_get (JObj kvs) ''Meta'' (JObj []) = Inr (JObj m)"
proof (cases "map_of kvs ''Meta''")
  case None
  then show ?thesis by (simp add: dict_get_def)
next
  case (Some m)
  with assms have "is_dict m" by (simp add: well_formed_motion_document_def)
  then obtain ms where "m = JObj ms" by (cases m) (auto simp: is_dict_def)
  with Some show ?thesis by (simp add: dict_get_def)
qed

lemma parse_motion_data_well_formed:
  assumes wf: "well_formed_motion_document kvs"
  shows "parse_motion_data h motion_id (JObj kvs, cref) = None \<longleftrightarrow>
           (case cref of
              Some (ListRef a) \<Rightarrow> curves_loop h a 0 (ListRef a) = None
            | _ \<Rightarrow> False)"
proof -
  from meta_dict[OF wf] obtain m where m: "dict_get (JObj kvs) ''Meta'' (JObj []) = Inr (JObj m)" ..
  show ?thesis
  proof (cases cref)
    case None
    have "curves_loop (h @ [[], []]) (Suc (length h)) 0 (ListRef (length h)) = Some (None, h @ [[], []])"
      by (simp add: curves_loop.simps nth_append)
    with None m show ?thesis
      by (simp add: parse_motion_data_def from_dict_def bind_err_def dict_get_def get_curves_def
          parse_curves_def)
  next
    case (Some r)
    show ?thesis
    proof (cases r)
      case (ListRef a)
      with Some m show ?thesis
        by (simp add: parse_motion_data_def from_dict_def bind_err_def dict_get_def get_curves_def
            parse_curves_def split: option.splits prod.splits)
    next
      case (Immut v)
      with Some m show ?thesis
        by (simp add: parse_motion_data_def from_dict_def bind_err_def dict_get_def get_curves_def
            parse_curves_def split: option.splits prod.splits)
    qed
  qed
qed

text \<open>
  C10. For a motion document of the expected shape that is not in the cache,
  \<open>parse_motion_file\<close> returns if and only if the document's \<open>Curves\<close> is absent or the
  empty list. \<open>Motion.from_dict\<close> binds \<open>motion.curves\<close> to the document's own list, the
  loop appends to that list on every iteration over it, and with at least one curve the
  iterator never reaches the end: the call does not return.
\<close>

theorem parse_motion_file_returns_iff:
  assumes cache: "motion_cache mp motion_path = None"
    and doc: "read_json motion_path = Inr (JObj kvs)"
    and wf: "well_formed_motion_document kvs"
  shows "parse_motion_file read_json stem mp h motion_path \<noteq> None \<longleftrightarrow>
           (map_of kvs ''Curves'' = None \<or> map_of kvs ''Curves'' = Some (JArr []))"
proof -
  have unfold: "parse_motion_file read_json stem mp h motion_path = None \<longleftrightarrow>
      parse_motion_data (snd (json_load h (JObj kvs))) (stem motion_path) (fst (json_load h (JObj kvs))) = None"
    using cache doc
    by (simp add: parse_motion_file_def split: prod.splits option.splits sum.splits)
  show ?thesis
  proof (cases "map_of kvs ''Curves''")
    case None
    then have "json_load h (JObj kvs) = ((JObj kvs, None), h)"
      by (simp add: json_load_def)
    then show ?thesis
      using None unfold parse_motion_data_well_formed[OF wf, of h "stem motion_path" None]
      by simp
  next
    case (Some v)
    with wf obtain xs where v: "v = JArr xs" and dicts: "list_all is_dict xs"
      by (cases v) (auto simp: well_formed_motion_document_def)
    let ?a = "length h"
    have load: "json_load h (JObj kvs) = ((JObj kvs, Some (ListRef ?a)), h @ [xs])"
      using Some v by (simp add: json_load_def)
    have iff: "parse_motion_file read_json stem mp h motion_path = None \<longleftrightarrow>
        curves_loop (h @ [xs]) ?a 0 (ListRef ?a) = None"
      using unfold load
        parse_motion_data_well_formed[OF wf, of "h @ [xs]" "stem motion_path" "Some (ListRef ?a)"]
      by simp
    show ?thesis
    proof (cases xs)
      case Nil
      then have "curves_loop (h @ [xs]) ?a 0 (ListRef ?a) = Some (None, h @ [xs])"
        by (simp add: curves_loop.simps)
      with iff Some v Nil show ?thesis by simp
    next
      case (Cons x xs')
      have "loop_feeds_itself (h @ [xs]) ?a 0 (ListRef ?a)"
        using dicts Cons by (auto simp: loop_feeds_itself_def list_all_length)
      then have "curves_loop (h @ [xs]) ?a 0 (ListRef ?a) = None"
        by (rule curves_loop_diverges)
      with iff Some v Cons show ?thesis by simp
    qed
  qed
qed

theorem parse_motion_file_returns_iff_witness:
  "parse_motion_file (\<lambda>p. Inr (JObj [(''Curves'', JArr [JObj [(''Target'', JStr ''Parameter''),
        (''Id'', JStr ''ParamAngleX''), (''Segments'', JArr [JNum 0, JNum 1, JNum 5])]])]))
     (\<lambda>p. p) MotionParser_init [] ''idle.motion3.json'' = None
 \<and> parse_motion_file (\<lambda>p. Inr (JObj [(''Meta'', JObj [(''Duration'', JNum 2)]), (''Curves'', JArr [])]))
     (\<lambda>p. p) MotionParser_init [] ''idle.motion3.json'' \<noteq> None"
proof -
  let ?d1 = "[(''Curves'', JArr [JObj [(''Target'', JStr ''Parameter''),
        (''Id'', JStr ''ParamAngleX''), (''Segments'', JArr [JNum 0, JNum 1, JNum 5])]])]"
  let ?d2 = "[(''Meta'', JObj [(''Duration'', JNum 2)]), (''Curves'', JArr [])]"
  have cache: "motion_cache MotionParser_init ''idle.motion3.json'' = None"
    by (simp add: MotionParser_init_def)
  have wf1: "well_formed_motion_document ?d1" and wf2: "well_formed_motion_document ?d2"
    by (simp_all add: well_formed_motion_document_def is_dict_def)
  have c1: "map_of ?d1 ''Curves'' \<noteq> None" "map_of ?d1 ''Curves'' \<noteq> Some (JArr [])"
    and c2: "map_of ?d2 ''Curves'' = Some (JArr [])"
    by simp_all
  have r1: "(\<lambda>p::string. Inr (JObj ?d1) :: py_error + json) ''idle.motion3.json'' = Inr (JObj ?d1)"
    and r2: "(\<lambda>p::string. Inr (JObj ?d2) :: py_error + json) ''idle.motion3.json'' = Inr (JObj ?d2)"
    by simp_all
  have "parse_motion_file (\<lambda>p. Inr (JObj ?d1)) (\<lambda>p. p) MotionParser_init [] ''idle.motion3.json'' = None"
    using parse_motion_file_returns_iff[OF cache r1 wf1, where stem = "\<lambda>p. p" and h = "[]"] c1
    by blast
  moreover
  have "parse_motion_file (\<lambda>p. Inr (JObj ?d2)) (\<lambda>p. p) MotionParser_init [] ''idle.motion3.json'' \<noteq> None"
    using parse_motion_file_returns_iff[OF cache r2 wf2, where stem = "\<lambda>p. p" and h = "[]"] c2
    by blast
  ultimately show ?thesis by blast
qed

section \<open>Properties of motion playback\<close>

text \<open>
  C8. \<open>play_motion\<close> with a name that is not among the loaded motions returns
  \<open>False\<close>, raises nothing and leaves the manager, and so the whole playback state, as it
  was.
\<close>

theorem play_motion_unknown:
  "motions mm motion_name = None \<Longrightarrow> play_motion mm motion_name loop fade_in_time = (Inr False, mm)"
  by (simp add: play_motion_def)

theorem play_motion_unknown_witness:
  "play_motion (MotionManager_init ParameterManager_init) ''idle'' None None
     = (Inr False, MotionManager_init ParameterManager_init)"
  using play_motion_unknown[of "MotionManager_init ParameterManager_init" "''idle''" None None]
  by (simp add: MotionManager_init_def)

lemma motions_from_dict:
  "(case json_load [] doc_A of (md, h) \<Rightarrow> from_dict h ''A'' md)
     = Inr (motion_A, snd (json_load [] doc_A))"
  "(case json_load (snd (json_load [] doc_A)) doc_B of (md, h) \<Rightarrow> from_dict h ''B'' md)
     = Inr (motion_B, snd (json_load (snd (json_load [] doc_A)) doc_B))"
  by (simp_all add: json_load_def from_dict_def doc_A_def doc_B_def motion_A_def motion_B_def
      dict_get_def bind_err_def get_curves_def)

lemma update_motion_object_raises:
  assumes "current_motion mm = Some cm" "motions mm (cm_name cm) = Some (MotionObj obj)"
  shows "fst (update mm delta_time) = Some AttributeError"
    and "parameter_manager (snd (update mm delta_time)) = parameter_manager mm"
  using assms
  by (simp_all add: update_def update_run_def motion_duration_def motion_get_def bind_err_def Let_def)

lemma playing_B_over_A_state:
  "current_motion playing_B_over_A =
      Some \<lparr>cm_name = ''B'', cm_time = 0, cm_loop = JBool True, cm_fade_in_time = JNum 1\<rparr>
   \<and> fade_out_motion playing_B_over_A =
      Some \<lparr>fo_motion = MotionObj motion_A, fo_start_time = 0, fo_fade_out_time = JNum 1\<rparr>
   \<and> fst (play_motion (snd (play_motion two_motions ''A'' None None)) ''B'' None None) = Inr True"
  by (simp add: playing_B_over_A_def two_motions_def play_motion_def MotionManager_init_def
      bind_err_def motion_attr_def motion_A_def motion_B_def)

text \<open>
  C1. The claim: \<open>update\<close> writes, for every parameter touched by the curves of the
  active or the fading-out motion, the weighted blend of the two curve values, 0.5/0.5
  half a second after B is played over A with fade times of one second. At that input the
  code raises \<open>AttributeError\<close> on \<open>motion_obj.get\<close> and writes nothing to the parameter
  store.
\<close>

theorem update_blend_raises:
  "fst (update playing_B_over_A (1 / 2)) = Some AttributeError
   \<and> parameters (parameter_manager (snd (update playing_B_over_A (1 / 2)))) = Map.empty"
proof -
  have m: "motions playing_B_over_A ''B'' = Some (MotionObj motion_B)"
    by (simp add: playing_B_over_A_def two_motions_def play_motion_def MotionManager_init_def
      bind_err_def motion_attr_def motion_A_def motion_B_def)
  have pm: "parameter_manager playing_B_over_A = ParameterManager_init"
    by (simp add: playing_B_over_A_def two_motions_def play_motion_def MotionManager_init_def
      bind_err_def motion_attr_def motion_A_def motion_B_def)
  from playing_B_over_A_state have cm: "current_motion playing_B_over_A =
      Some \<lparr>cm_name = ''B'', cm_time = 0, cm_loop = JBool True, cm_fade_in_time = JNum 1\<rparr>"
    by simp
  show ?thesis
    using update_motion_object_raises[OF cm, of motion_B "1 / 2"] m pm
    by (simp add: ParameterManager_init_def)
qed

text \<open>
  With the raw documents in \<open>self.motions\<close>, which is what \<open>update\<close> expects, the value
  written is the active motion's curve value alone (20): \<open>update_parameters\<close> is called
  before the loop over the fading-out motion adds its share to the local dict, where the
  blend (15 with weight 1) is left unused.
\<close>

lemma evaluate_curve_A:
  "evaluate_curve bc (JObj [(''Target'', JStr ''Parameter''), (''Id'', JStr ''ParamAngleX''),
        (''Segments'', JArr [JNum 0, JNum 100, JNum v])]) (1 / 2) = (Inr v, bc)"
  by (simp add: evaluate_curve_def dict_get_def truthy_def bind_err_def dict_item_def id_string_def
      segments_loop.simps evaluate_segment_def)

lemma update_writes_before_blending:
  "fst (update_run dict_blend_state (1 / 2)) = None
 \<and> snd (snd (update_run dict_blend_state (1 / 2))) = [(''ParamAngleX'', 15, 1)]
 \<and> get_parameter (parameter_manager (snd (update dict_blend_state (1 / 2)))) ''ParamAngleX'' 0 = 20"
  by (simp add: update_def update_run_def dict_blend_state_def MotionManager_init_def doc_A_def doc_B_def
      motion_duration_def motion_get_def dict_get_def bind_err_def wrap_time_def truthy_def as_number_def
      fade_in_weight_of_def py_div_def fade_out_weight_of_def fade_out_local_time_def
      update_blend_def curves_iter_def dict_item_def id_string_def evaluate_curve_A
      final_parameters_def set_calculator_def set_parameter_def register_parameter_def clamp_def
      get_parameter_def ParameterManager_init_def Let_def)

section \<open>Properties of the physics\<close>

subsection \<open>Fixed points\<close>

lemma keeps_fixed_refl: "keeps_fixed ps ps"
  by (simp add: keeps_fixed_def)

lemma keeps_fixed_trans: "keeps_fixed ps ps1 \<Longrightarrow> keeps_fixed ps1 ps2 \<Longrightarrow> keeps_fixed ps ps2"
  by (auto simp: keeps_fixed_def)

lemma py_index_position:
  assumes "py_index xs i = Inr x"
  shows "py_position xs i < length xs \<and> x = xs ! py_position xs i"
  using assms by (auto simp: py_index_def py_position_def split: if_splits)

lemma relax_spring_keeps_fixed:
  assumes "relax_spring ps spring = Inr ps1"
  shows "keeps_fixed ps ps1"
proof (cases "point1_idx spring \<ge> int (length ps) \<or> point2_idx spring \<ge> int (length ps)")
  case True
  with assms show ?thesis by (simp add: relax_spring_def keeps_fixed_refl)
next
  case False
  from assms False obtain point1 point2
    where p1: "py_index ps (point1_idx spring) = Inr point1"
      and p2: "py_index ps (point2_idx spring) = Inr point2"
    by (auto simp: relax_spring_def split: sum.splits)
  note i1 = py_index_position[OF p1] and i2 = py_index_position[OF p2]
  show ?thesis
  proof (cases "vnorm (vsub (position point2) (position point1)) < 1 / 10000")
    case True
    with assms False p1 p2 show ?thesis
      by (simp add: relax_spring_def keeps_fixed_refl)
  next
    case far: False
    with assms False p1 p2 obtain rest where r: "rest_length spring = Some rest"
      by (auto simp: relax_spring_def Let_def split: option.splits)
    from assms False p1 p2 far r i1 i2 show ?thesis
      by (auto simp: relax_spring_def Let_def keeps_fixed_def nth_list_update split: if_splits)
  qed
qed

lemma relax_springs_keeps_fixed: "keeps_fixed ps (snd (relax_springs ps ss))"
proof (induction ss arbitrary: ps)
  case Nil
  show ?case by (simp add: keeps_fixed_refl)
next
  case (Cons spring rest)
  show ?case
  proof (cases "relax_spring ps spring")
    case (Inl e)
    then show ?thesis by (simp add: keeps_fixed_refl)
  next
    case (Inr ps1)
    then have "keeps_fixed ps ps1" by (rule relax_spring_keeps_fixed)
    moreover have "keeps_fixed ps1 (snd (relax_springs ps1 rest))" by (rule Cons.IH)
    ultimately show ?thesis using Inr by (auto intro: keeps_fixed_trans)
  qed
qed

lemma relax_rounds_keeps_fixed: "keeps_fixed ps (snd (relax_rounds n ss ps))"
proof (induction n arbitrary: ps)
  case 0
  show ?case by (simp add: keeps_fixed_refl)
next
  case (Suc n)
  obtain e ps1 where r: "relax_springs ps ss = (e, ps1)" by (cases "relax_springs ps ss")
  have k1: "keeps_fixed ps ps1" using relax_springs_keeps_fixed[of ps ss] r by simp
  show ?case
  proof (cases e)
    case None
    have "keeps_fixed ps1 (snd (relax_rounds n ss ps1))" by (rule Suc.IH)
    with k1 r None show ?thesis by (auto intro: keeps_fixed_trans)
  next
    case (Some err)
    with k1 r show ?thesis by simp
  qed
qed

lemma solve_constraints_keeps_fixed:
  "keeps_fixed (points g) (points (snd (solve_constraints g)))"
  using relax_rounds_keeps_fixed[of "points g" 3 "springs g"]
  by (auto simp: solve_constraints_def split: prod.splits)

subsection \<open>One spring between two free points\<close>

lemma vnorm_vscale: "vnorm (vscale u k) = \<bar>k\<bar> * vnorm u"
proof -
  have "fst u * k * (fst u * k) + snd u * k * (snd u * k) = (k * k) * (fst u * fst u + snd u * snd u)"
    by (simp add: algebra_simps)
  then show ?thesis
    by (simp add: vnorm_def vscale_def real_sqrt_mult)
qed

lemma vnorm_vsub_commute: "vnorm (vsub u v) = vnorm (vsub v u)"
proof -
  have "(fst u - fst v) * (fst u - fst v) + (snd u - snd v) * (snd u - snd v)
      = (fst v - fst u) * (fst v - fst u) + (snd v - snd u) * (snd v - snd u)"
    by (simp add: algebra_simps)
  then show ?thesis by (simp add: vnorm_def vsub_def)
qed

text \<open>The correction of one spring of stiffness 1 between two free points.\<close>

lemma corrected_distance:
  fixes p q :: vec2
  assumes d: "vnorm (vsub q p) > 0" and L: "0 \<le> L"
  defines "c \<equiv> vscale (vscale (vscale (vsub q p) ((L - vnorm (vsub q p)) / vnorm (vsub q p))) (1 / 2)) 1"
  shows "vnorm (vsub (vadd q c) (vsub p c)) = L"
proof -
  let ?d = "vnorm (vsub q p)"
  have "vsub (vadd q c) (vsub p c) = vscale (vsub q p) (L / ?d)"
    using d by (simp add: c_def vsub_def vadd_def vscale_def field_simps)
  then have "vnorm (vsub (vadd q c) (vsub p c)) = \<bar>L / ?d\<bar> * ?d"
    by (simp add: vnorm_vscale)
  also have "\<dots> = L" using d L by simp
  finally show ?thesis .
qed

lemma relax_spring_pair:
  assumes free: "\<not> fixed a" "\<not> fixed b"
    and idx: "(point1_idx s = 0 \<and> point2_idx s = 1) \<or> (point1_idx s = 1 \<and> point2_idx s = 0)"
    and s: "stiffness s = 1" "rest_length s = Some L" "0 \<le> L"
    and d: "vnorm (vsub (position b) (position a)) \<ge> 1 / 10000"
  shows "\<exists>a1 b1. relax_spring [a, b] s = Inr [a1, b1] \<and> \<not> fixed a1 \<and> \<not> fixed b1
           \<and> vnorm (vsub (position b1) (position a1)) = L"
  using idx
proof
  assume i: "point1_idx s = 0 \<and> point2_idx s = 1"
  let ?c = "vscale (vscale (vscale (vsub (position b) (position a))
              ((L - vnorm (vsub (position b) (position a))) / vnorm (vsub (position b) (position a)))) (1 / 2)) 1"
  have "relax_spring [a, b] s = Inr [a\<lparr>position := vsub (position a) ?c\<rparr>, b\<lparr>position := vadd (position b) ?c\<rparr>]"
    using i free s d by (simp add: relax_spring_def py_index_def py_position_def Let_def)
  moreover have "vnorm (vsub (vadd (position b) ?c) (vsub (position a) ?c)) = L"
    using d s(3) by (intro corrected_distance) auto
  ultimately show ?thesis using free by auto
next
  assume i: "point1_idx s = 1 \<and> point2_idx s = 0"
  let ?c = "vscale (vscale (vscale (vsub (position a) (position b))
              ((L - vnorm (vsub (position a) (position b))) / vnorm (vsub (position a) (position b)))) (1 / 2)) 1"
  have d': "vnorm (vsub (position a) (position b)) \<ge> 1 / 10000"
    using d by (simp add: vnorm_vsub_commute)
  have "relax_spring [a, b] s = Inr [a\<lparr>position := vadd (position a) ?c\<rparr>, b\<lparr>position := vsub (position b) ?c\<rparr>]"
    using i free s d' by (simp add: relax_spring_def py_index_def py_position_def Let_def)
  moreover have "vnorm (vsub (vadd (position a) ?c) (vsub (position b) ?c)) = L"
    using d' s(3) by (intro corrected_distance) auto
  then have "vnorm (vsub (vsub (position b) ?c) (vadd (position a) ?c)) = L"
    by (simp add: vnorm_vsub_commute)
  ultimately show ?thesis using free by auto
qed

lemma zero_correction:
  "vsub p (vscale (vscale (vscale u 0) (1 / 2)) k) = p"
  "vadd p (vscale (vscale (vscale u 0) (1 / 2)) k) = p"
  by (simp_all add: vsub_def vadd_def vscale_def)

lemma relax_spring_at_rest:
  assumes idx: "(point1_idx s = 0 \<and> point2_idx s = 1) \<or> (point1_idx s = 1 \<and> point2_idx s = 0)"
    and s: "rest_length s = Some L"
    and d: "vnorm (vsub (position b) (position a)) = L"
  shows "relax_spring [a, b] s = Inr [a, b]"
proof -
  have d': "vnorm (vsub (position a) (position b)) = L"
    using d by (simp add: vnorm_vsub_commute)
  have ratio: "(L - L) / L = 0" by simp
  from idx show ?thesis
  proof
    assume i: "point1_idx s = 0 \<and> point2_idx s = 1"
    have p: "py_index [a, b] 0 = Inr a" "py_index [a, b] 1 = Inr b"
      "py_position [a, b] 0 = 0" "py_position [a, b] 1 = 1"
      by (simp_all add: py_index_def py_position_def)
    show ?thesis
      by (simp add: relax_spring_def i p d s ratio zero_correction Let_def)
  next
    assume i: "point1_idx s = 1 \<and> point2_idx s = 0"
    have p: "py_index [a, b] 0 = Inr a" "py_index [a, b] 1 = Inr b"
      "py_position [a, b] 0 = 0" "py_position [a, b] 1 = 1"
      by (simp_all add: py_index_def py_position_def)
    show ?thesis
      by (simp add: relax_spring_def i p d' s ratio zero_correction Let_def)
  qed
qed

lemma relax_rounds_pair:
  assumes free: "\<not> fixed a" "\<not> fixed b"
    and idx: "(point1_idx s = 0 \<and> point2_idx s = 1) \<or> (point1_idx s = 1 \<and> point2_idx s = 0)"
    and s: "stiffness s = 1" "rest_length s = Some L" "0 \<le> L"
    and d: "vnorm (vsub (position b) (position a)) > 1 / 10000"
  shows "\<exists>a1 b1. relax_rounds 3 [s] [a, b] = (None, [a1, b1])
           \<and> vnorm (vsub (position b1) (position a1)) = L"
proof -
  from relax_spring_pair[OF free idx s] d obtain a1 b1
    where r1: "relax_spring [a, b] s = Inr [a1, b1]"
      and d1: "vnorm (vsub (position b1) (position a1)) = L"
    by auto
  have r2: "relax_spring [a1, b1] s = Inr [a1, b1]"
    using idx s(2) d1 by (rule relax_spring_at_rest)
  have "relax_rounds 3 [s] [a, b] = (None, [a1, b1])"
    using r1 r2 by (simp add: numeral_3_eq_3)
  with d1 show ?thesis by blast
qed

text \<open>
  C4. For a group of two free points joined by one spring of stiffness 1 and rest length
  \<open>L\<close> (a length: \<open>0 \<le> L\<close>), more than 0.0001 apart, \<open>solve_constraints\<close> raises nothing
  and leaves the two points \<open>L\<close> apart (exactly so over the reals). And in every group,
  whatever its springs, a point marked fixed is the same point after \<open>solve_constraints\<close>.
\<close>

theorem solve_constraints_spring:
  "(points g = [a, b] \<and> \<not> fixed a \<and> \<not> fixed b \<and> springs g = [s]
      \<and> ((point1_idx s = 0 \<and> point2_idx s = 1) \<or> (point1_idx s = 1 \<and> point2_idx s = 0))
      \<and> stiffness s = 1 \<and> rest_length s = Some L \<and> 0 \<le> L
      \<and> vnorm (vsub (position b) (position a)) > 1 / 10000
    \<longrightarrow> (\<exists>a1 b1. solve_constraints g = (None, g\<lparr>points := [a1, b1]\<rparr>)
            \<and> vnorm (vsub (position b1) (position a1)) = L))
 \<and> length (points (snd (solve_constraints g))) = length (points g)
 \<and> (\<forall>i < length (points g). fixed (points g ! i)
        \<longrightarrow> points (snd (solve_constraints g)) ! i = points g ! i)"
proof (intro conjI impI)
  assume h: "points g = [a, b] \<and> \<not> fixed a \<and> \<not> fixed b \<and> springs g = [s]
      \<and> ((point1_idx s = 0 \<and> point2_idx s = 1) \<or> (point1_idx s = 1 \<and> point2_idx s = 0))
      \<and> stiffness s = 1 \<and> rest_length s = Some L \<and> 0 \<le> L
      \<and> vnorm (vsub (position b) (position a)) > 1 / 10000"
  then obtain a1 b1 where "relax_rounds 3 [s] [a, b] = (None, [a1, b1])"
      "vnorm (vsub (position b1) (position a1)) = L"
    using relax_rounds_pair[of a b s L] by blast
  with h show "\<exists>a1 b1. solve_constraints g = (None, g\<lparr>points := [a1, b1]\<rparr>)
            \<and> vnorm (vsub (position b1) (position a1)) = L"
    by (auto simp: solve_constraints_def)
next
  show "length (points (snd (solve_constraints g))) = length (points g)"
    using solve_constraints_keeps_fixed[of g] by (simp add: keeps_fixed_def)
next
  show "\<forall>i < length (points g). fixed (points g ! i)
        \<longrightarrow> points (snd (solve_constraints g)) ! i = points g ! i"
    using solve_constraints_keeps_fixed[of g] by (simp add: keeps_fixed_def)
qed

theorem solve_constraints_spring_witness:
  "(\<exists>a1 b1. solve_constraints stretched_pair = (None, stretched_pair\<lparr>points := [a1, b1]\<rparr>)
      \<and> vnorm (vsub (position b1) (position a1)) = 1)
 \<and> points (snd (solve_constraints anchored_pair)) ! 0 = PhysicsPoint_init 0 0 1 True"
proof -
  let ?a = "PhysicsPoint_init 0 0 1 False" and ?b = "PhysicsPoint_init 2 0 1 False"
  let ?s = "\<lparr>point1_idx = 0, point2_idx = 1, rest_length = Some 1, stiffness = 1\<rparr>"
  have "vnorm (vsub (position ?b) (position ?a)) = 2"
    by (simp add: vnorm_def vsub_def PhysicsPoint_init_def)
  then have hyp: "points stretched_pair = [?a, ?b] \<and> \<not> fixed ?a \<and> \<not> fixed ?b
      \<and> springs stretched_pair = [?s]
      \<and> ((point1_idx ?s = 0 \<and> point2_idx ?s = 1) \<or> (point1_idx ?s = 1 \<and> point2_idx ?s = 0))
      \<and> stiffness ?s = 1 \<and> rest_length ?s = Some 1 \<and> (0::real) \<le> 1
      \<and> vnorm (vsub (position ?b) (position ?a)) > 1 / 10000"
    by (simp add: stretched_pair_def PhysicsPoint_init_def)
  have first: "\<exists>a1 b1. solve_constraints stretched_pair = (None, stretched_pair\<lparr>points := [a1, b1]\<rparr>)
      \<and> vnorm (vsub (position b1) (position a1)) = 1"
    using solve_constraints_spring[of stretched_pair ?a ?b ?s 1] hyp by blast
  have "\<forall>i < length (points anchored_pair). fixed (points anchored_pair ! i)
        \<longrightarrow> points (snd (solve_constraints anchored_pair)) ! i = points anchored_pair ! i"
    using solve_constraints_spring[of anchored_pair ?a ?b ?s 1] by blast
  then have "points (snd (solve_constraints anchored_pair)) ! 0 = points anchored_pair ! 0"
    by (simp add: anchored_pair_def PhysicsPoint_init_def)
  then have second: "points (snd (solve_constraints anchored_pair)) ! 0 = PhysicsPoint_init 0 0 1 True"
    by (simp add: anchored_pair_def)
  from first second show ?thesis by blast
qed

subsection \<open>The time step\<close>

text \<open>
  C6, as amended. The time step that \<open>update\<close> hands to force application, integration
  and constraint solving is the supplied \<open>delta_time\<close> when that is at most 0.033 seconds,
  and 0.033 seconds otherwise: the bound in the code is the literal 0.033, not 1/30.
\<close>

theorem physics_update_step:
  "(delta_time \<le> 33 / 1000 \<longrightarrow> physics_update sys delta_time = update_groups sys delta_time)
 \<and> (33 / 1000 \<le> delta_time \<longrightarrow> physics_update sys delta_time = update_groups sys (33 / 1000))"
proof (intro conjI impI)
  assume "delta_time \<le> 33 / 1000"
  then have "min delta_time (33 / 1000) = delta_time" by simp
  then show "physics_update sys delta_time = update_groups sys delta_time"
    by (simp only: physics_update_def)
next
  assume "33 / 1000 \<le> delta_time"
  then have "min delta_time (33 / 1000) = 33 / 1000" by simp
  then show "physics_update sys delta_time = update_groups sys (33 / 1000)"
    by (simp only: physics_update_def)
qed

theorem physics_update_step_witness:
  "physics_update falling_point (1 / 100) = update_groups falling_point (1 / 100)
 \<and> physics_update falling_point 1 = update_groups falling_point (33 / 1000)"
  using physics_update_step[of "1 / 100" falling_point] physics_update_step[of 1 falling_point]
  by simp

text \<open>
  C6 as stated fails at \<open>delta_time = 1/30\<close>: the value is within the bound of 1/30 of a
  second, and the step used is 0.033, not 1/30.
\<close>

lemma falling_point_step:
  "map position (points (hd (groups (snd (update_groups falling_point dt)))))
     = [(0, - (9702 / 1000) * dt * dt)]"
  by (simp add: update_groups_def falling_point_def PhysicsSystem_init_def update_group_def
      apply_external_forces_def update_points_def solve_constraints_def PhysicsPoint_init_def
      get_parameter_def ParameterManager_init_def vadd_def vsub_def vscale_def Let_def
      numeral_3_eq_3 algebra_simps)

theorem physics_update_thirtieth:
  "(1 / 30 :: real) \<le> 1 / 30
 \<and> physics_update falling_point (1 / 30) \<noteq> update_groups falling_point (1 / 30)"
proof -
  have "map position (points (hd (groups (snd (physics_update falling_point (1 / 30))))))
          = [(0, - (9702 / 1000) * (33 / 1000) * (33 / 1000))]"
    using falling_point_step[of "33 / 1000"] by (simp add: physics_update_def)
  moreover have "map position (points (hd (groups (snd (update_groups falling_point (1 / 30))))))
          = [(0, - (9702 / 1000) * (1 / 30) * (1 / 30))]"
    by (rule falling_point_step)
  ultimately show ?thesis by auto
qed

end
